theory Spec2Isabelle
  imports Main "HOL-Library.AList"
begin

section \<open>Python values\<close>

text \<open>
  The values that flow through the entity classes and the JSON layer: what \<open>json.load\<close>
  returns and what the \<open>to_dict\<close> methods build. A Python \<open>dict\<close> keeps its keys in
  insertion order and \<open>json.dump\<close> writes them in that order, so a dict is an association
  list. Strings are lists of 8-bit characters, read as the code points 0 to 255. Binary
  floating point numbers are not part of the model.
\<close>

datatype json =
    JNull
  | JBool bool
  | JInt int
  | JStr string
  | JList "json list"
  | JDict "(string \<times> json) list"

text \<open>
  The exceptions the modelled code raises, each with its message (for
  \<open>UnboundLocalError\<close>, the name of the local variable). \<open>OutsideModel\<close> is not a Python
  exception: it marks the places where the code would go on with a value that the typed
  entity records below cannot hold, such as a number as identifier.
\<close>

datatype py_error =
    ValueError string
  | TypeError string
  | AttributeError string
  | KeyError string
  | UnboundLocalError string
  | FileNotFoundError string
  | JSONDecodeError
  | IntegrityError string
  | OutsideModel string

text \<open>Truth value of a Python object, as \<open>not x\<close> and \<open>if x\<close> test it.\<close>

fun truthy :: "json \<Rightarrow> bool" where
  "truthy JNull = False"
| "truthy (JBool b) = b"
| "truthy (JInt n) = (n \<noteq> 0)"
| "truthy (JStr s) = (s \<noteq> [])"
| "truthy (JList xs) = (xs \<noteq> [])"
| "truthy (JDict kvs) = (kvs \<noteq> [])"

section \<open>Strings: \<open>str.isalpha\<close>, \<open>str.strip\<close>, \<open>int(str)\<close>\<close>

definition code_point :: "char \<Rightarrow> nat" where
  "code_point c = of_char c"

text \<open>\<open>str.isalpha\<close> on the code points below 256: the Unicode letters of Latin-1.\<close>

definition is_alpha :: "char \<Rightarrow> bool" where
  "is_alpha c =
     (let n = code_point c in
        (65 \<le> n \<and> n \<le> 90) \<or> (97 \<le> n \<and> n \<le> 122) \<or> n = 170 \<or> n = 181 \<or> n = 186
        \<or> (192 \<le> n \<and> n \<le> 214) \<or> (216 \<le> n \<and> n \<le> 246) \<or> (248 \<le> n \<and> n \<le> 255))"

definition str_isalpha :: "string \<Rightarrow> bool" where
  "str_isalpha s = (s \<noteq> [] \<and> list_all is_alpha s)"

text \<open>The characters \<open>str.strip()\<close> removes (\<open>str.isspace\<close> on the code points below 256).\<close>

definition is_space :: "char \<Rightarrow> bool" where
  "is_space c =
     (let n = code_point c in
        (9 \<le> n \<and> n \<le> 13) \<or> (28 \<le> n \<and> n \<le> 32) \<or> n = 133 \<or> n = 160)"

definition str_strip :: "string \<Rightarrow> string" where
  "str_strip s = rev (dropWhile is_space (rev (dropWhile is_space s)))"

text \<open>
  \<open>int(s)\<close> for a string, base 10: white space around the literal is skipped (for
  \<open>int\<close> the separators 28 to 31 do not count as white space), then an optional sign,
  then decimal digits where single underscores may stand between two digits. The
  interpreter's limit on the number of digits (\<open>sys.set_int_max_str_digits\<close>) is not
  modelled.
\<close>

definition is_int_space :: "char \<Rightarrow> bool" where
  "is_int_space c =
     (let n = code_point c in (9 \<le> n \<and> n \<le> 13) \<or> n = 32 \<or> n = 133 \<or> n = 160)"

definition is_digit :: "char \<Rightarrow> bool" where
  "is_digit c = (let n = code_point c in 48 \<le> n \<and> n \<le> 57)"

definition digit_val :: "char \<Rightarrow> nat" where
  "digit_val c = code_point c - 48"

fun parse_digits :: "nat \<Rightarrow> string \<Rightarrow> nat option" where
  "parse_digits acc [] = Some acc"
| "parse_digits acc [c] =
     (if is_digit c then Some (acc * 10 + digit_val c) else None)"
| "parse_digits acc (c # d # cs) =
     (if is_digit c then parse_digits (acc * 10 + digit_val c) (d # cs)
      else if c = CHR ''_'' \<and> is_digit d then parse_digits (acc * 10 + digit_val d) cs
      else None)"

definition parse_unsigned :: "string \<Rightarrow> nat option" where
  "parse_unsigned s =
     (case s of
        [] \<Rightarrow> None
      | c # cs \<Rightarrow> if is_digit c then parse_digits (digit_val c) cs else None)"

definition parse_int :: "string \<Rightarrow> int option" where
  "parse_int s =
     (let t = rev (dropWhile is_int_space (rev (dropWhile is_int_space s))) in
      case t of
        [] \<Rightarrow> None
      | c # cs \<Rightarrow>
          if c = CHR ''-'' then map_option (\<lambda>n. - int n) (parse_unsigned cs)
          else if c = CHR ''+'' then map_option int (parse_unsigned cs)
          else map_option int (parse_unsigned t))"

text \<open>\<open>int(x)\<close> on a value: \<open>bool\<close> is a subclass of \<open>int\<close>; \<open>None\<close>, lists and dicts
  raise \<open>TypeError\<close>; a string that is no literal raises \<open>ValueError\<close>.\<close>

fun py_int :: "json \<Rightarrow> py_error + int" where
  "py_int (JInt n) = Inr n"
| "py_int (JBool b) = Inr (if b then 1 else 0)"
| "py_int (JStr s) =
     (case parse_int s of
        Some n \<Rightarrow> Inr n
      | None \<Rightarrow> Inl (ValueError ''invalid literal for int() with base 10''))"
| "py_int JNull = Inl (TypeError ''int() argument must be a string, a bytes-like object or a real number'')"
| "py_int (JList xs) = Inl (TypeError ''int() argument must be a string, a bytes-like object or a real number'')"
| "py_int (JDict kvs) = Inl (TypeError ''int() argument must be a string, a bytes-like object or a real number'')"

section \<open>The email pattern\<close>

text \<open>
  \<open>Person.validate_email\<close> matches the address against
  \<^verbatim>\<open>^[A-Za-z0-9._%+-]+@[A-Za-z0-9.-]+\.[A-Za-z]{2,}$\<close> with \<open>re.match\<close>. The pattern is a
  value of a small type of regular expressions, matched with derivatives; a character
  class is a list of inclusive ranges.
\<close>

datatype regex =
    Zero
  | Eps
  | Class "(char \<times> char) list"
  | Seq regex regex
  | Alt regex regex
  | Star regex

definition in_class :: "(char \<times> char) list \<Rightarrow> char \<Rightarrow> bool" where
  "in_class rs c =
     list_ex (\<lambda>r. code_point (fst r) \<le> code_point c \<and> code_point c \<le> code_point (snd r)) rs"

fun nullable :: "regex \<Rightarrow> bool" where
  "nullable Zero = False"
| "nullable Eps = True"
| "nullable (Class rs) = False"
| "nullable (Seq r s) = (nullable r \<and> nullable s)"
| "nullable (Alt r s) = (nullable r \<or> nullable s)"
| "nullable (Star r) = True"

fun deriv :: "char \<Rightarrow> regex \<Rightarrow> regex" where
  "deriv c Zero = Zero"
| "deriv c Eps = Zero"
| "deriv c (Class rs) = (if in_class rs c then Eps else Zero)"
| "deriv c (Seq r s) =
     (if nullable r then Alt (Seq (deriv c r) s) (deriv c s) else Seq (deriv c r) s)"
| "deriv c (Alt r s) = Alt (deriv c r) (deriv c s)"
| "deriv c (Star r) = Seq (deriv c r) (Star r)"

definition matches :: "regex \<Rightarrow> string \<Rightarrow> bool" where
  "matches r s = nullable (fold deriv s r)"

text \<open>\<open>r+\<close> and \<open>r{2,}\<close>.\<close>

definition Plus :: "regex \<Rightarrow> regex" where
  "Plus r = Seq r (Star r)"

definition AtLeast2 :: "regex \<Rightarrow> regex" where
  "AtLeast2 r = Seq r (Seq r (Star r))"

definition email_pattern :: regex where
  "email_pattern =
     Seq (Plus (Class [(CHR ''A'', CHR ''Z''), (CHR ''a'', CHR ''z''), (CHR ''0'', CHR ''9''),
                       (CHR ''.'', CHR ''.''), (CHR ''_'', CHR ''_''), (CHR ''%'', CHR ''%''),
                       (CHR ''+'', CHR ''+''), (CHR ''-'', CHR ''-'')]))
    (Seq (Class [(CHR ''@'', CHR ''@'')])
    (Seq (Plus (Class [(CHR ''A'', CHR ''Z''), (CHR ''a'', CHR ''z''), (CHR ''0'', CHR ''9''),
                       (CHR ''.'', CHR ''.''), (CHR ''-'', CHR ''-'')]))
    (Seq (Class [(CHR ''.'', CHR ''.'')])
         (AtLeast2 (Class [(CHR ''A'', CHR ''Z''), (CHR ''a'', CHR ''z'')])))))"

text \<open>
  \<open>re.match\<close> of a pattern \<open>^r$\<close>: \<open>r\<close> matches from the start, and \<open>$\<close> holds at the end
  of the string or just before a newline that is its last character.
\<close>

definition re_match_anchored :: "regex \<Rightarrow> string \<Rightarrow> bool" where
  "re_match_anchored r s =
     (matches r s \<or> (s \<noteq> [] \<and> last s = CHR 0x0A \<and> matches r (butlast s)))"

section \<open>person.py: the validators\<close>

definition validate_name :: "json \<Rightarrow> py_error + string" where
  "validate_name name =
     (if \<not> truthy name then Inl (ValueError ''Name cannot be empty'')
      else case name of
             JStr s \<Rightarrow>
               if \<not> str_isalpha s then Inl (ValueError ''Name must be alphabetic.'')
               else Inr (str_strip s)
           | _ \<Rightarrow> Inl (AttributeError ''isalpha''))"

definition validate_email :: "json \<Rightarrow> py_error + string" where
  "validate_email email =
     (if \<not> truthy email then Inl (ValueError ''Email cannot be empty'')
      else case email of
             JStr s \<Rightarrow>
               if re_match_anchored email_pattern s then Inr s
               else Inl (ValueError ''Invalid email format'')
           | _ \<Rightarrow> Inl (TypeError ''expected string or bytes-like object''))"

text \<open>\<open>except (TypeError, ValueError)\<close>; \<open>json.JSONDecodeError\<close> is a subclass of
  \<open>ValueError\<close>.\<close>

fun is_TypeError_or_ValueError :: "py_error \<Rightarrow> bool" where
  "is_TypeError_or_ValueError (TypeError m) = True"
| "is_TypeError_or_ValueError (ValueError m) = True"
| "is_TypeError_or_ValueError JSONDecodeError = True"
| "is_TypeError_or_ValueError e = False"

definition validate_age :: "json \<Rightarrow> py_error + int" where
  "validate_age age =
     (if age = JNull then Inl (ValueError ''Age cannot be empty'')
      else case py_int age of
             Inl e \<Rightarrow>
               if is_TypeError_or_ValueError e then Inl (ValueError ''Age must be a number.'')
               else Inl e
           | Inr age_int \<Rightarrow>
               if \<not> (1 \<le> age_int \<and> age_int \<le> 120)
               then Inl (ValueError ''Age must be between 1 and 120.'')
               else Inr age_int)"

section \<open>Dictionaries\<close>

type_synonym dict = "(string \<times> json) list"

text \<open>\<open>d.get(k)\<close>, \<open>d.get(k, default)\<close>, \<open>d[k]\<close> and \<open>k in d\<close>.\<close>

definition dict_get :: "dict \<Rightarrow> string \<Rightarrow> json" where
  "dict_get d k = (case map_of d k of None \<Rightarrow> JNull | Some v \<Rightarrow> v)"

definition dict_get_default :: "dict \<Rightarrow> string \<Rightarrow> json \<Rightarrow> json" where
  "dict_get_default d k dflt = (case map_of d k of None \<Rightarrow> dflt | Some v \<Rightarrow> v)"

definition dict_index :: "dict \<Rightarrow> string \<Rightarrow> py_error + json" where
  "dict_index d k = (case map_of d k of None \<Rightarrow> Inl (KeyError k) | Some v \<Rightarrow> Inr v)"

definition dict_has :: "('k \<times> 'v) list \<Rightarrow> 'k \<Rightarrow> bool" where
  "dict_has d k = (k \<in> set (map fst d))"

text \<open>
  \<open>d[k] = v\<close> replaces the value of a key in place and puts a new key at the end, which is
  \<open>AList.update\<close>. \<open>{**a, **b}\<close> and \<open>a.update(b)\<close> store the items of \<open>b\<close> into \<open>a\<close> from
  first to last.
\<close>

definition dict_merge :: "('k \<times> 'v) list \<Rightarrow> ('k \<times> 'v) list \<Rightarrow> ('k \<times> 'v) list" where
  "dict_merge a b = fold (\<lambda>kv d. AList.update (fst kv) (snd kv) d) b a"

section \<open>person.py, student.py, instructor.py\<close>

text \<open>
  The entity fields carry the types of the constructors' annotations: identifiers are
  strings and course lists are lists of strings. The three validated arguments are any
  Python value, since the validators decide what to do with them.
\<close>

record person =
  name :: string
  age :: int
  email :: string

record student = person +
  student_id :: string
  registered_courses :: "string list"

record instructor = person +
  instructor_id :: string
  assigned_courses :: "string list"

text \<open>\<open>Person.__init__\<close>: the name is stripped and not validated; age and email are.\<close>

definition Person_init :: "json \<Rightarrow> json \<Rightarrow> json \<Rightarrow> py_error + person" where
  "Person_init nm ag em =
     (case nm of
        JStr s \<Rightarrow>
          (case validate_age ag of
             Inl e \<Rightarrow> Inl e
           | Inr a \<Rightarrow>
               (case validate_email em of
                  Inl e \<Rightarrow> Inl e
                | Inr m \<Rightarrow> Inr \<lparr>name = str_strip s, age = a, email = m\<rparr>))
      | _ \<Rightarrow> Inl (AttributeError ''strip''))"

definition Person_to_dict :: "'a person_scheme \<Rightarrow> dict" where
  "Person_to_dict p = [(''name'', JStr (name p)), (''age'', JInt (age p)), (''email'', JStr (email p))]"

definition Student_init ::
  "json \<Rightarrow> json \<Rightarrow> json \<Rightarrow> string \<Rightarrow> string list option \<Rightarrow> py_error + student" where
  "Student_init nm ag em sid courses =
     (case Person_init nm ag em of
        Inl e \<Rightarrow> Inl e
      | Inr p \<Rightarrow>
          Inr \<lparr>name = name p, age = age p, email = email p, student_id = sid,
               registered_courses = (case courses of None \<Rightarrow> [] | Some cs \<Rightarrow> cs)\<rparr>)"

definition Instructor_init ::
  "json \<Rightarrow> json \<Rightarrow> json \<Rightarrow> string \<Rightarrow> string list option \<Rightarrow> py_error + instructor" where
  "Instructor_init nm ag em iid courses =
     (case Person_init nm ag em of
        Inl e \<Rightarrow> Inl e
      | Inr p \<Rightarrow>
          Inr \<lparr>name = name p, age = age p, email = email p, instructor_id = iid,
               assigned_courses = (case courses of None \<Rightarrow> [] | Some cs \<Rightarrow> cs)\<rparr>)"

definition Student_to_dict :: "student \<Rightarrow> dict" where
  "Student_to_dict s =
     dict_merge (Person_to_dict s)
       [(''student_id'', JStr (student_id s)),
        (''registered_courses'', JList (map JStr (registered_courses s)))]"

definition Instructor_to_dict :: "instructor \<Rightarrow> dict" where
  "Instructor_to_dict i =
     dict_merge (Person_to_dict i)
       [(''instructor_id'', JStr (instructor_id i)),
        (''assigned_courses'', JList (map JStr (assigned_courses i)))]"

text \<open>
  What the typed records can hold of the two unvalidated values of a mapping: a string
  identifier, and a list of strings (\<open>None\<close> becomes the empty list in the constructor).
\<close>

fun as_string :: "json \<Rightarrow> string option" where
  "as_string (JStr s) = Some s"
| "as_string v = None"

fun as_string_list :: "json list \<Rightarrow> string list option" where
  "as_string_list [] = Some []"
| "as_string_list (v # vs) =
     (case as_string v of
        None \<Rightarrow> None
      | Some s \<Rightarrow> map_option ((#) s) (as_string_list vs))"

fun as_courses :: "json \<Rightarrow> string list option option" where
  "as_courses JNull = Some None"
| "as_courses (JList vs) = map_option Some (as_string_list vs)"
| "as_courses v = None"

text \<open>
  \<open>from_dict\<close> runs its assignments inside \<open>try: ... except Exception: pass\<close> and then
  evaluates \<open>cls(name, age, email, student_id, registered_courses)\<close>. What the
  \<open>try\<close> statement leaves behind is the local variables bound when it ended, normally or
  by a swallowed exception; reading a variable that was never bound raises
  \<open>UnboundLocalError\<close>.
\<close>

record from_dict_locals =
  l_name :: "json option"
  l_age :: "json option"
  l_email :: "json option"
  l_id :: "json option"
  l_courses :: "json option"

definition no_locals :: from_dict_locals where
  "no_locals = \<lparr>l_name = None, l_age = None, l_email = None, l_id = None, l_courses = None\<rparr>"

definition Student_from_dict_try :: "json \<Rightarrow> from_dict_locals" where
  "Student_from_dict_try data =
     (case data of
        JDict d \<Rightarrow>
          (let L1 = no_locals\<lparr>l_name := Some (dict_get d ''name'')\<rparr> in
           if dict_get d ''name'' = JNull then L1 else
           let L2 = L1\<lparr>l_age := Some (dict_get d ''age'')\<rparr> in
           if dict_get d ''age'' = JNull then L2 else
           let L3 = L2\<lparr>l_email := Some (dict_get d ''email'')\<rparr> in
           if dict_get d ''email'' = JNull then L3 else
           let L4 = L3\<lparr>l_id := Some (dict_get d ''student_id'')\<rparr> in
           if dict_get d ''student_id'' = JNull then L4 else
           case validate_name (dict_get d ''name'') of
             Inl e \<Rightarrow> L4
           | Inr n \<Rightarrow>
               let L5 = L4\<lparr>l_name := Some (JStr n)\<rparr> in
               (case validate_age (dict_get_default d ''age'' (JInt 1)) of
                  Inl e \<Rightarrow> L5
                | Inr a \<Rightarrow>
                    let L6 = L5\<lparr>l_age := Some (JInt a)\<rparr> in
                    (case validate_email (dict_get_default d ''email'' (JStr [])) of
                       Inl e \<Rightarrow> L6
                     | Inr m \<Rightarrow>
                         let L7 = L6\<lparr>l_email := Some (JStr m)\<rparr> in
                         (case dict_index d ''student_id'' of
                            Inl e \<Rightarrow> L7
                          | Inr sid \<Rightarrow>
                              L7\<lparr>l_id := Some sid,
                                 l_courses := Some (dict_get_default d ''registered_courses'' (JList []))\<rparr>))))
      | _ \<Rightarrow> no_locals)"

definition Instructor_from_dict_try :: "json \<Rightarrow> from_dict_locals" where
  "Instructor_from_dict_try data =
     (case data of
        JDict d \<Rightarrow>
          (case validate_name (dict_get_default d ''name'' (JStr [])) of
             Inl e \<Rightarrow> no_locals
           | Inr n \<Rightarrow>
               let L1 = no_locals\<lparr>l_name := Some (JStr n)\<rparr> in
               (case validate_age (dict_get_default d ''age'' (JInt 0)) of
                  Inl e \<Rightarrow> L1
                | Inr a \<Rightarrow>
                    let L2 = L1\<lparr>l_age := Some (JInt a)\<rparr> in
                    (case validate_email (dict_get_default d ''email'' (JStr [])) of
                       Inl e \<Rightarrow> L2
                     | Inr m \<Rightarrow>
                         let L3 = L2\<lparr>l_email := Some (JStr m)\<rparr> in
                         (case dict_index d ''instructor_id'' of
                            Inl e \<Rightarrow> L3
                          | Inr iid \<Rightarrow>
                              L3\<lparr>l_id := Some iid,
                                 l_courses := Some (dict_get_default d ''assigned_courses'' (JList []))\<rparr>))))
      | _ \<Rightarrow> no_locals)"

text \<open>
  The call after the \<open>try\<close> statement: the five variables are read from left to right
  (\<open>id_var\<close> and \<open>courses_var\<close> are the names of the last two), then the constructor runs.
\<close>

definition read_locals ::
  "string \<Rightarrow> string \<Rightarrow> from_dict_locals \<Rightarrow> py_error + (json \<times> json \<times> json \<times> json \<times> json)" where
  "read_locals id_var courses_var L =
     (case l_name L of None \<Rightarrow> Inl (UnboundLocalError ''name'') | Some n \<Rightarrow>
      case l_age L of None \<Rightarrow> Inl (UnboundLocalError ''age'') | Some a \<Rightarrow>
      case l_email L of None \<Rightarrow> Inl (UnboundLocalError ''email'') | Some m \<Rightarrow>
      case l_id L of None \<Rightarrow> Inl (UnboundLocalError id_var) | Some i \<Rightarrow>
      case l_courses L of None \<Rightarrow> Inl (UnboundLocalError courses_var) | Some cs \<Rightarrow>
      Inr (n, a, m, i, cs))"

definition Student_from_dict :: "json \<Rightarrow> py_error + student" where
  "Student_from_dict data =
     (case read_locals ''student_id'' ''registered_courses'' (Student_from_dict_try data) of
        Inl e \<Rightarrow> Inl e
      | Inr (n, a, m, i, cs) \<Rightarrow>
          (case as_string i of
             None \<Rightarrow> Inl (OutsideModel ''student_id'')
           | Some sid \<Rightarrow>
               (case as_courses cs of
                  None \<Rightarrow> Inl (OutsideModel ''registered_courses'')
                | Some courses \<Rightarrow> Student_init n a m sid courses)))"

definition Instructor_from_dict :: "json \<Rightarrow> py_error + instructor" where
  "Instructor_from_dict data =
     (case read_locals ''instructor_id'' ''assigned_courses'' (Instructor_from_dict_try data) of
        Inl e \<Rightarrow> Inl e
      | Inr (n, a, m, i, cs) \<Rightarrow>
          (case as_string i of
             None \<Rightarrow> Inl (OutsideModel ''instructor_id'')
           | Some iid \<Rightarrow>
               (case as_courses cs of
                  None \<Rightarrow> Inl (OutsideModel ''assigned_courses'')
                | Some courses \<Rightarrow> Instructor_init n a m iid courses)))"

text \<open>An entity whose three validated fields pass their validators unchanged.\<close>

definition valid_person :: "'a person_scheme \<Rightarrow> bool" where
  "valid_person p =
     (validate_name (JStr (name p)) = Inr (name p)
      \<and> validate_age (JInt (age p)) = Inr (age p)
      \<and> validate_email (JStr (email p)) = Inr (email p))"

section \<open>course.py\<close>

text \<open>
  A course holds references to its instructor and its students, and \<open>student not in
  self.enrolled_students\<close> compares references (the entity classes define no \<open>__eq__\<close>).
  So the objects a course can refer to live in a store, a reference is an index into it,
  and a new object is put at the end.
\<close>

datatype pyobj =
    ObjStudent student
  | ObjInstructor instructor
  | ObjValue json

type_synonym addr = nat

type_synonym heap = "pyobj list"

definition deref :: "heap \<Rightarrow> addr \<Rightarrow> pyobj option" where
  "deref h a = (if a < length h then Some (h ! a) else None)"

definition alloc :: "heap \<Rightarrow> pyobj \<Rightarrow> addr \<times> heap" where
  "alloc h obj = (length h, h @ [obj])"

text \<open>\<open>isinstance(x, Instructor)\<close> and \<open>isinstance(x, Student)\<close>.\<close>

definition isinstance_Instructor :: "heap \<Rightarrow> addr \<Rightarrow> bool" where
  "isinstance_Instructor h a = (case deref h a of Some (ObjInstructor i) \<Rightarrow> True | _ \<Rightarrow> False)"

definition isinstance_Student :: "heap \<Rightarrow> addr \<Rightarrow> bool" where
  "isinstance_Student h a = (case deref h a of Some (ObjStudent s) \<Rightarrow> True | _ \<Rightarrow> False)"

record course =
  course_id :: string
  course_name :: string
  instructor :: "addr option"
  enrolled_students :: "addr list"

text \<open>\<open>Student.register_course\<close> and \<open>Instructor.assign_course\<close> read \<open>course.course_id\<close>.\<close>

definition Student_register_course :: "student \<Rightarrow> course \<Rightarrow> student" where
  "Student_register_course s c =
     (if course_id c \<notin> set (registered_courses s)
      then s\<lparr>registered_courses := registered_courses s @ [course_id c]\<rparr>
      else s)"

definition Instructor_assign_course :: "instructor \<Rightarrow> course \<Rightarrow> instructor" where
  "Instructor_assign_course i c =
     (if course_id c \<notin> set (assigned_courses i)
      then i\<lparr>assigned_courses := assigned_courses i @ [course_id c]\<rparr>
      else i)"

text \<open>\<open>Course.__init__\<close>: the \<open>instructor\<close> argument is not stored.\<close>

definition Course_init ::
  "string \<Rightarrow> string \<Rightarrow> addr option \<Rightarrow> addr list option \<Rightarrow> course" where
  "Course_init cid cname instr studs =
     \<lparr>course_id = cid, course_name = cname, instructor = None,
      enrolled_students = (case studs of None \<Rightarrow> [] | Some ss \<Rightarrow> ss)\<rparr>"

text \<open>
  The two mutators return the exception, if any, and the course as the call leaves it.
\<close>

definition Course_add_instructor :: "heap \<Rightarrow> course \<Rightarrow> addr \<Rightarrow> (py_error + unit) \<times> course" where
  "Course_add_instructor h c x =
     (if \<not> isinstance_Instructor h x
      then (Inl (ValueError ''Only an Instructor can be assigned to the course.''), c)
      else (Inr (), c\<lparr>instructor := Some x\<rparr>))"

definition Course_add_student :: "heap \<Rightarrow> course \<Rightarrow> addr \<Rightarrow> (py_error + unit) \<times> course" where
  "Course_add_student h c x =
     (if \<not> isinstance_Student h x
      then (Inl (ValueError ''Only a Student can be enrolled in the course.''), c)
      else if x \<notin> set (enrolled_students c)
      then (Inr (), c\<lparr>enrolled_students := enrolled_students c @ [x]\<rparr>)
      else (Inr (), c))"

text \<open>\<open>x.to_dict()\<close> on a referenced object.\<close>

definition obj_to_dict :: "heap \<Rightarrow> addr \<Rightarrow> py_error + json" where
  "obj_to_dict h a =
     (case deref h a of
        Some (ObjStudent s) \<Rightarrow> Inr (JDict (Student_to_dict s))
      | Some (ObjInstructor i) \<Rightarrow> Inr (JDict (Instructor_to_dict i))
      | Some (ObjValue v) \<Rightarrow> Inl (AttributeError ''to_dict'')
      | None \<Rightarrow> Inl (OutsideModel ''dangling reference''))"

text \<open>A list comprehension whose element expression may raise: the first exception ends it.\<close>

fun collect :: "(py_error + 'a) list \<Rightarrow> py_error + 'a list" where
  "collect [] = Inr []"
| "collect (x # xs) =
     (case x of
        Inl e \<Rightarrow> Inl e
      | Inr v \<Rightarrow> (case collect xs of Inl e \<Rightarrow> Inl e | Inr vs \<Rightarrow> Inr (v # vs)))"

definition Course_to_dict :: "heap \<Rightarrow> course \<Rightarrow> py_error + dict" where
  "Course_to_dict h c =
     (case (case instructor c of None \<Rightarrow> Inr JNull | Some a \<Rightarrow> obj_to_dict h a) of
        Inl e \<Rightarrow> Inl e
      | Inr i \<Rightarrow>
          (case collect (map (obj_to_dict h) (enrolled_students c)) of
             Inl e \<Rightarrow> Inl e
           | Inr ss \<Rightarrow>
               Inr [(''course_id'', JStr (course_id c)), (''course_name'', JStr (course_name c)),
                    (''instructor'', i), (''enrolled_students'', JList ss)]))"

text \<open>Iterating over a value: a list gives its items, a string its characters, a dict its
  keys; nothing else can be iterated.\<close>

fun py_iter :: "json \<Rightarrow> py_error + json list" where
  "py_iter (JList xs) = Inr xs"
| "py_iter (JStr s) = Inr (map (\<lambda>c. JStr [c]) s)"
| "py_iter (JDict kvs) = Inr (map (\<lambda>kv. JStr (fst kv)) kvs)"
| "py_iter v = Inl (TypeError ''object is not iterable'')"

text \<open>\<open>[Student.from_dict(student_data) for student_data in ...]\<close>: every student built
  is a new object.\<close>

fun Student_from_dict_each :: "heap \<Rightarrow> json list \<Rightarrow> (py_error + addr list) \<times> heap" where
  "Student_from_dict_each h [] = (Inr [], h)"
| "Student_from_dict_each h (v # vs) =
     (case Student_from_dict v of
        Inl e \<Rightarrow> (Inl e, h)
      | Inr s \<Rightarrow>
          (case alloc h (ObjStudent s) of
             (a, h1) \<Rightarrow>
               (case Student_from_dict_each h1 vs of
                  (Inl e, h2) \<Rightarrow> (Inl e, h2)
                | (Inr as, h2) \<Rightarrow> (Inr (a # as), h2))))"

definition Course_from_dict :: "heap \<Rightarrow> json \<Rightarrow> (py_error + course) \<times> heap" where
  "Course_from_dict h data =
     (case data of
        JDict d \<Rightarrow>
          (case (if truthy (dict_get d ''instructor'')
                 then (case Instructor_from_dict (dict_get d ''instructor'') of
                         Inl e \<Rightarrow> (Inl e, h)
                       | Inr i \<Rightarrow> (case alloc h (ObjInstructor i) of (a, h1) \<Rightarrow> (Inr (Some a), h1)))
                 else (Inr None, h)) of
             (Inl e, h1) \<Rightarrow> (Inl e, h1)
           | (Inr instr, h1) \<Rightarrow>
               (case dict_index d ''enrolled_students'' of
                  Inl e \<Rightarrow> (Inl e, h1)
                | Inr sv \<Rightarrow>
                    (case py_iter sv of
                       Inl e \<Rightarrow> (Inl e, h1)
                     | Inr items \<Rightarrow>
                         (case Student_from_dict_each h1 items of
                            (Inl e, h2) \<Rightarrow> (Inl e, h2)
                          | (Inr studs, h2) \<Rightarrow>
                              (case dict_index d ''course_id'' of
                                 Inl e \<Rightarrow> (Inl e, h2)
                               | Inr cid \<Rightarrow>
                                   (case dict_index d ''course_name'' of
                                      Inl e \<Rightarrow> (Inl e, h2)
                                    | Inr cname \<Rightarrow>
                                        (case as_string cid of
                                           None \<Rightarrow> (Inl (OutsideModel ''course_id''), h2)
                                         | Some cid' \<Rightarrow>
                                             (case as_string cname of
                                                None \<Rightarrow> (Inl (OutsideModel ''course_name''), h2)
                                              | Some cname' \<Rightarrow>
                                                  (Inr (Course_init cid' cname' instr (Some studs)), h2)))))))))
      | _ \<Rightarrow> (Inl (AttributeError ''get''), h))"

section \<open>\<open>str\<close> of a value\<close>

text \<open>
  \<open>save_data\<close> indexes the records by \<open>str(record[key_field])\<close>. \<open>str\<close> of a string is
  the string; of anything else it is \<open>repr\<close>: decimal digits for an integer, \<open>None\<close>,
  \<open>True\<close>, \<open>False\<close>, and for lists and dicts the \<open>repr\<close> of the items, where a string is
  quoted and its unprintable characters are escaped.
\<close>

fun str_nat :: "nat \<Rightarrow> string" where
  "str_nat n =
     (if n < 10 then [char_of (48 + n)] else str_nat (n div 10) @ [char_of (48 + n mod 10)])"

definition str_int :: "int \<Rightarrow> string" where
  "str_int i = (if i < 0 then CHR ''-'' # str_nat (nat (- i)) else str_nat (nat i))"

definition hex_digit :: "nat \<Rightarrow> char" where
  "hex_digit n = (if n < 10 then char_of (48 + n) else char_of (87 + n))"

definition is_printable :: "char \<Rightarrow> bool" where
  "is_printable c =
     (let n = code_point c in \<not> (n < 32 \<or> (127 \<le> n \<and> n \<le> 160) \<or> n = 173))"

definition repr_char :: "char \<Rightarrow> char \<Rightarrow> string" where
  "repr_char quote c =
     (if c = quote \<or> c = CHR 0x5C then [CHR 0x5C, c]
      else if c = CHR 0x09 then [CHR 0x5C, CHR ''t'']
      else if c = CHR 0x0A then [CHR 0x5C, CHR ''n'']
      else if c = CHR 0x0D then [CHR 0x5C, CHR ''r'']
      else if \<not> is_printable c
      then [CHR 0x5C, CHR ''x'', hex_digit (code_point c div 16), hex_digit (code_point c mod 16)]
      else [c])"

definition repr_str :: "string \<Rightarrow> string" where
  "repr_str s =
     (let quote = (if CHR 0x27 \<in> set s \<and> CHR 0x22 \<notin> set s then CHR 0x22 else CHR 0x27)
      in [quote] @ concat (map (repr_char quote) s) @ [quote])"

fun join_comma :: "string list \<Rightarrow> string" where
  "join_comma [] = []"
| "join_comma [x] = x"
| "join_comma (x # y # ys) = x @ '', '' @ join_comma (y # ys)"

primrec py_repr :: "json \<Rightarrow> string" where
  "py_repr JNull = ''None''"
| "py_repr (JBool b) = (if b then ''True'' else ''False'')"
| "py_repr (JInt n) = str_int n"
| "py_repr (JStr s) = repr_str s"
| "py_repr (JList xs) = ''['' @ join_comma (map py_repr xs) @ '']''"
| "py_repr (JDict kvs) =
     ''{'' @ join_comma (map (\<lambda>kv. repr_str (fst kv) @ '': '' @ snd kv)
                             (map (map_prod id py_repr) kvs)) @ ''}''"

definition py_str :: "json \<Rightarrow> string" where
  "py_str v = (case v of JStr s \<Rightarrow> s | _ \<Rightarrow> py_repr v)"

section \<open>data_manager.py\<close>

text \<open>
  A file either holds text that \<open>json.load\<close> rejects or text that it parses to a value,
  and \<open>json.dump\<close> writes a value as text that parses back to it. The file system maps a
  path to what the file holds; an absent path is a file that does not exist.
\<close>

datatype file_content = NotJson | Json json

type_synonym filesystem = "string \<Rightarrow> file_content option"

definition load_json :: "filesystem \<Rightarrow> string \<Rightarrow> py_error + json" where
  "load_json fs filename =
     (case fs filename of
        None \<Rightarrow> Inl (FileNotFoundError filename)
      | Some NotJson \<Rightarrow> Inl JSONDecodeError
      | Some (Json v) \<Rightarrow> Inr v)"

definition overwrite_json_file :: "filesystem \<Rightarrow> string \<Rightarrow> json \<Rightarrow> filesystem" where
  "overwrite_json_file fs filename data = fs(filename \<mapsto> Json data)"

text \<open>
  The first statement of \<open>save_data\<close>: the records of the existing file, and no records
  when the file is missing, is not JSON, or is JSON but not a list.
\<close>

definition read_existing :: "filesystem \<Rightarrow> string \<Rightarrow> json list" where
  "read_existing fs filename =
     (case fs filename of
        None \<Rightarrow> []
      | Some NotJson \<Rightarrow> []
      | Some (Json v) \<Rightarrow> (case v of JList records \<Rightarrow> records | _ \<Rightarrow> []))"

text \<open>
  The dict comprehension
  \<^verbatim>\<open>{str(record[key_field]): record for record in existing
     if isinstance(record, dict) and key_field in record}\<close>.
\<close>

definition index_record :: "string \<Rightarrow> json \<Rightarrow> (string \<times> dict) list \<Rightarrow> (string \<times> dict) list" where
  "index_record key_field record by_key =
     (case record of
        JDict r \<Rightarrow>
          if dict_has r key_field then AList.update (py_str (dict_get r key_field)) r by_key
          else by_key
      | _ \<Rightarrow> by_key)"

definition index_by_key :: "string \<Rightarrow> json list \<Rightarrow> (string \<times> dict) list" where
  "index_by_key key_field existing = fold (index_record key_field) existing []"

text \<open>
  The body of the loop over \<open>data\<close>. An element is \<open>None\<close> or an object, and an object is
  represented by the mapping its \<open>to_dict()\<close> returns.
\<close>

definition upsert :: "string \<Rightarrow> dict option \<Rightarrow> (string \<times> dict) list \<Rightarrow> (string \<times> dict) list" where
  "upsert key_field obj by_key =
     (case obj of
        None \<Rightarrow> by_key
      | Some record \<Rightarrow>
          (let key = py_str (dict_get record key_field) in
           if key = [] then by_key
           else AList.update key
                  (dict_merge (case map_of by_key key of None \<Rightarrow> [] | Some old \<Rightarrow> old) record)
                  by_key))"

definition save_data ::
  "filesystem \<Rightarrow> string \<Rightarrow> dict option list option \<Rightarrow> string \<Rightarrow> filesystem" where
  "save_data fs filename data key_field =
     (let existing = read_existing fs filename;
          by_key = index_by_key key_field existing;
          by_key' = fold (upsert key_field) (case data of None \<Rightarrow> [] | Some objs \<Rightarrow> objs) by_key
      in fs(filename \<mapsto> Json (JList (map (\<lambda>kr. JDict (snd kr)) by_key'))))"

text \<open>
  The record a file holds for a key, as \<open>save_data\<close> would find it, and the
  serialisations in a collection that \<open>save_data\<close> files under a key.
\<close>

definition stored :: "string \<Rightarrow> filesystem \<Rightarrow> string \<Rightarrow> string \<Rightarrow> dict option" where
  "stored key_field fs filename key = map_of (index_by_key key_field (read_existing fs filename)) key"

definition incoming_for :: "string \<Rightarrow> string \<Rightarrow> dict option list \<Rightarrow> dict list" where
  "incoming_for key_field key objs =
     concat (map (\<lambda>obj. case obj of
                          None \<Rightarrow> []
                        | Some record \<Rightarrow>
                            if py_str (dict_get record key_field) = key then [record] else [])
                 objs)"

section \<open>Well-formed dictionaries and indexes\<close>

text \<open>
  A Python dict has every key once. \<open>unique_keys\<close> says so of a record of the file,
  \<open>keyed_object\<close> of the mapping of an object that also has the key field, and
  \<open>keyed_index\<close> of the index \<open>by_key\<close>: its keys are distinct and every record is filed
  under the \<open>str\<close> of its own key field.
\<close>

definition unique_keys :: "json \<Rightarrow> bool" where
  "unique_keys v = (case v of JDict r \<Rightarrow> distinct (map fst r) | _ \<Rightarrow> True)"

definition keyed_object :: "string \<Rightarrow> dict option \<Rightarrow> bool" where
  "keyed_object key_field obj =
     (case obj of None \<Rightarrow> True | Some record \<Rightarrow> distinct (map fst record) \<and> dict_has record key_field)"

definition keyed_index :: "string \<Rightarrow> (string \<times> dict) list \<Rightarrow> bool" where
  "keyed_index key_field by_key =
     (distinct (map fst by_key)
      \<and> list_all (\<lambda>kr. dict_has (snd kr) key_field
                        \<and> py_str (dict_get (snd kr) key_field) = fst kr
                        \<and> distinct (map fst (snd kr))) by_key)"

text \<open>\<open>by_key.get(key, {})\<close>, and the keys under which a collection is filed.\<close>

definition old_record :: "(string \<times> dict) list \<Rightarrow> string \<Rightarrow> dict" where
  "old_record S k = (case map_of S k of None \<Rightarrow> [] | Some x \<Rightarrow> x)"

definition object_key :: "string \<Rightarrow> dict option \<Rightarrow> string set" where
  "object_key kf obj =
     (case obj of None \<Rightarrow> {}
      | Some d \<Rightarrow> if py_str (dict_get d kf) = [] then {} else {py_str (dict_get d kf)})"

definition incoming_keys :: "string \<Rightarrow> dict option list \<Rightarrow> string set" where
  "incoming_keys kf ds = {k. k \<noteq> [] \<and> incoming_for kf k ds \<noteq> []}"

section \<open>database_manager.py\<close>

text \<open>
  The SQLite file is the five tables of \<open>create_tables\<close>; a row of \<open>students\<close> and of
  \<open>instructors\<close> is \<open>(id, name, age, email)\<close>, a row of \<open>courses\<close> is
  \<open>(course_id, course_name)\<close>, and a row of an association table is a pair of
  identifiers. Every method opens its own connection, so the state between two calls is
  the content of the file. Foreign keys are declared but SQLite does not enforce them
  unless asked to, and the code never asks.
\<close>

type_synonym person_row = "string \<times> string \<times> int \<times> string"

record database =
  students :: "person_row list"
  instructors :: "person_row list"
  courses :: "(string \<times> string) list"
  student_courses :: "(string \<times> string) list"
  instructor_courses :: "(string \<times> string) list"

definition row_id :: "person_row \<Rightarrow> string" where
  "row_id r = fst r"

definition row_email :: "person_row \<Rightarrow> string" where
  "row_email r = snd (snd (snd r))"

text \<open>
  \<^verbatim>\<open>INSERT INTO students (student_id, name, age, email) VALUES (?, ?, ?, ?)\<close> against
  \<open>student_id TEXT PRIMARY KEY\<close> and \<open>email TEXT UNIQUE NOT NULL\<close>: a row whose email or
  whose identifier is already in the table is refused with \<open>sqlite3.IntegrityError\<close>.
\<close>

definition insert_student :: "database \<Rightarrow> person_row \<Rightarrow> py_error + database" where
  "insert_student db r =
     (if row_email r \<in> set (map row_email (students db))
      then Inl (IntegrityError ''UNIQUE constraint failed: students.email'')
      else if row_id r \<in> set (map row_id (students db))
      then Inl (IntegrityError ''UNIQUE constraint failed: students.student_id'')
      else Inr (db\<lparr>students := students db @ [r]\<rparr>))"

text \<open>
  \<open>DatabaseManager.add_student\<close>: the insert is committed when it succeeds; an
  \<open>IntegrityError\<close> is caught and raised again as a \<open>ValueError\<close>, and the connection is
  closed without a commit. The methods return the exception, if any, and the database
  as the call leaves it.
\<close>

definition DatabaseManager_add_student ::
  "database \<Rightarrow> student \<Rightarrow> (py_error + unit) \<times> database" where
  "DatabaseManager_add_student db s =
     (case insert_student db (student_id s, name s, age s, email s) of
        Inr db' \<Rightarrow> (Inr (), db')
      | Inl (IntegrityError m) \<Rightarrow>
          (Inl (ValueError (''Student already exists or email is already in use: '' @ m)), db)
      | Inl e \<Rightarrow> (Inl e, db))"

text \<open>\<^verbatim>\<open>DELETE FROM t WHERE col = ?\<close> keeps the rows whose column differs.\<close>

definition DatabaseManager_delete_student :: "database \<Rightarrow> string \<Rightarrow> database" where
  "DatabaseManager_delete_student db sid =
     db\<lparr>students := filter (\<lambda>r. row_id r \<noteq> sid) (students db),
        student_courses := filter (\<lambda>r. fst r \<noteq> sid) (student_courses db)\<rparr>"

definition DatabaseManager_delete_course :: "database \<Rightarrow> string \<Rightarrow> database" where
  "DatabaseManager_delete_course db cid =
     db\<lparr>courses := filter (\<lambda>r. fst r \<noteq> cid) (courses db),
        student_courses := filter (\<lambda>r. snd r \<noteq> cid) (student_courses db),
        instructor_courses := filter (\<lambda>r. snd r \<noteq> cid) (instructor_courses db)\<rparr>"

section \<open>Example objects\<close>

definition ann :: student where
  "ann = \<lparr>name = ''Ann'', age = 20, email = ''ann@x.com'', student_id = ''S1'',
          registered_courses = []\<rparr>"

definition bob :: instructor where
  "bob = \<lparr>name = ''Bob'', age = 40, email = ''bob@x.com'', instructor_id = ''I1'',
          assigned_courses = []\<rparr>"

definition carl :: instructor where
  "carl = \<lparr>name = ''Carl'', age = 50, email = ''carl@x.com'', instructor_id = ''I2'',
           assigned_courses = []\<rparr>"

definition example_heap :: heap where
  "example_heap = [ObjStudent ann, ObjInstructor bob, ObjInstructor carl, ObjValue (JStr ''I1'')]"

definition math :: course where
  "math = Course_init ''C1'' ''Math'' None None"

definition example_db :: database where
  "example_db =
     \<lparr>students = [(''S1'', ''Ann'', 20, ''ann@x.com''), (''S2'', ''Dan'', 22, ''dan@x.com'')],
      instructors = [(''I1'', ''Bob'', 40, ''bob@x.com'')],
      courses = [(''C1'', ''Math''), (''C2'', ''Art'')],
      student_courses = [(''S1'', ''C1''), (''S2'', ''C1''), (''S1'', ''C2'')],
      instructor_courses = [(''I1'', ''C1''), (''I1'', ''C2'')]\<rparr>"

definition example_fs :: filesystem where
  "example_fs =
     (\<lambda>path. None)
       (''students.json'' \<mapsto>
          Json (JList [JDict [(''student_id'', JStr ''S0''), (''name'', JStr ''Zed'')],
                       JDict [(''student_id'', JStr ''S1''), (''name'', JStr ''Anna''),
                              (''note'', JStr ''kept'')]]),
        ''broken.json'' \<mapsto> NotJson)"

definition blank_ann :: student where
  "blank_ann = ann\<lparr>student_id := []\<rparr>"

definition blank_fs :: filesystem where
  "blank_fs =
     (\<lambda>path. None)
       (''students.json'' \<mapsto>
          Json (JList [JDict [(''student_id'', JStr []), (''name'', JStr ''Old'')]]))"

section \<open>Properties of the validators\<close>



text \<open>
  The email pattern on the examples of the specification: an address needs a local part,
  an \<open>@\<close>, a domain, a dot and at least two letters after the last dot.
\<close>

lemma validate_email_examples:
  "validate_email (JStr ''a@b.co'') = Inr ''a@b.co''"
  "validate_email (JStr ''noatsign'') = Inl (ValueError ''Invalid email format'')"
  "validate_email (JStr ''a@b'') = Inl (ValueError ''Invalid email format'')"
  "validate_email (JStr ''a@b.c'') = Inl (ValueError ''Invalid email format'')"
  "validate_email (JStr []) = Inl (ValueError ''Email cannot be empty'')"
  by (simp_all add: validate_email_def re_match_anchored_def matches_def email_pattern_def
      Plus_def AtLeast2_def in_class_def code_point_def)

section \<open>Properties of the entity classes\<close>

lemma deref_example_heap:
  "deref example_heap 0 = Some (ObjStudent ann)"
  "deref example_heap 1 = Some (ObjInstructor bob)"
  "deref example_heap (Suc 0) = Some (ObjInstructor bob)"
  "deref example_heap 2 = Some (ObjInstructor carl)"
  "deref example_heap 3 = Some (ObjValue (JStr ''I1''))"
  by (simp_all add: deref_def example_heap_def)

lemma Course_from_dict_no_instructor:
  "Course_from_dict h data = (Inr c, h') \<Longrightarrow> instructor c = None"
  by (auto simp: Course_from_dict_def Course_init_def
      split: json.splits sum.splits prod.splits option.splits if_splits)

text \<open>
  Claim C2. Whatever is passed to the \<open>Course\<close> constructor, also a reference to an
  \<open>Instructor\<close>, the new course has no instructor. A course built by \<open>from_dict\<close> has
  none either, enrolling a student leaves the instructor field as it is, and
  \<open>add_instructor\<close> with an \<open>Instructor\<close> is what sets it.
\<close>

theorem Course_init_discards_instructor:
  "instructor (Course_init cid cname instr studs) = None
   \<and> (Course_from_dict h data = (Inr c', h') \<longrightarrow> instructor c' = None)
   \<and> instructor (snd (Course_add_student h c x)) = instructor c
   \<and> (deref h x = Some (ObjInstructor i) \<longrightarrow>
        instructor (snd (Course_add_instructor h (Course_init cid cname instr studs) x)) = Some x)"
  by (simp add: Course_init_def Course_add_student_def Course_add_instructor_def
      isinstance_Instructor_def Course_from_dict_no_instructor)

theorem Course_init_discards_instructor_witness:
  "deref example_heap 1 = Some (ObjInstructor bob)
   \<and> instructor (Course_init ''C1'' ''Math'' (Some 1) None) = None
   \<and> Course_from_dict example_heap
        (JDict [(''course_id'', JStr ''C1''), (''course_name'', JStr ''Math''),
                (''instructor'', JNull), (''enrolled_students'', JList [])])
       = (Inr math, example_heap)
   \<and> instructor math = None
   \<and> instructor (snd (Course_add_instructor example_heap (Course_init ''C1'' ''Math'' (Some 1) None) 1))
       = Some 1"
proof -
  have f: "Course_from_dict example_heap
        (JDict [(''course_id'', JStr ''C1''), (''course_name'', JStr ''Math''),
                (''instructor'', JNull), (''enrolled_students'', JList [])])
       = (Inr math, example_heap)"
    by (simp add: Course_from_dict_def dict_get_def dict_index_def math_def Course_init_def)
  show ?thesis
    using Course_init_discards_instructor
      [of "''C1''" "''Math''" "Some 1" None example_heap
          "JDict [(''course_id'', JStr ''C1''), (''course_name'', JStr ''Math''),
                  (''instructor'', JNull), (''enrolled_students'', JList [])]"
          math example_heap math 1 bob] f
    by (simp add: deref_example_heap)
qed

text \<open>
  Claim C7. \<open>Course.add_instructor\<close> raises the \<open>ValueError\<close> of the type check for every
  argument that is not an \<open>Instructor\<close> and leaves the course as it was; for an
  \<open>Instructor\<close> it stores the reference over whatever was there, so of two assignments the
  later one is the course's instructor.
\<close>

theorem add_instructor_last_write_wins:
  "((\<forall>i. deref h x \<noteq> Some (ObjInstructor i)) \<longrightarrow>
      Course_add_instructor h c x =
        (Inl (ValueError ''Only an Instructor can be assigned to the course.''), c))
   \<and> (deref h x = Some (ObjInstructor i) \<longrightarrow>
      Course_add_instructor h c x = (Inr (), c\<lparr>instructor := Some x\<rparr>))
   \<and> (deref h i1 = Some (ObjInstructor v1) \<and> deref h i2 = Some (ObjInstructor v2) \<longrightarrow>
      instructor (snd (Course_add_instructor h (snd (Course_add_instructor h c i2)) i1)) = Some i1)"
  by (auto simp: Course_add_instructor_def isinstance_Instructor_def split: option.splits pyobj.splits)

theorem add_instructor_last_write_wins_witness:
  "Course_add_instructor example_heap math 3 =
     (Inl (ValueError ''Only an Instructor can be assigned to the course.''), math)
   \<and> Course_add_instructor example_heap math 0 =
     (Inl (ValueError ''Only an Instructor can be assigned to the course.''), math)
   \<and> Course_add_instructor example_heap math 2 = (Inr (), math\<lparr>instructor := Some 2\<rparr>)
   \<and> instructor (snd (Course_add_instructor example_heap (snd (Course_add_instructor example_heap math 2)) 1))
       = Some 1"
  using add_instructor_last_write_wins [of example_heap 3 math bob 1 bob 2 carl]
    add_instructor_last_write_wins [of example_heap 0 math bob 1 bob 2 carl]
    add_instructor_last_write_wins [of example_heap 2 math carl 1 bob 2 carl]
  by (simp add: deref_example_heap)

text \<open>
  Claim C8. \<open>register_course\<close>, \<open>assign_course\<close> and \<open>add_student\<close> are idempotent: the
  second call with the same argument changes nothing and raises nothing. After a call
  the identifier (the student reference) is in the list, and a list without duplicates
  stays without duplicates.
\<close>

theorem idempotent_registration:
  "Student_register_course (Student_register_course s c) c = Student_register_course s c
   \<and> course_id c \<in> set (registered_courses (Student_register_course s c))
   \<and> (distinct (registered_courses s) \<longrightarrow> distinct (registered_courses (Student_register_course s c)))
   \<and> Instructor_assign_course (Instructor_assign_course i c) c = Instructor_assign_course i c
   \<and> course_id c \<in> set (assigned_courses (Instructor_assign_course i c))
   \<and> (distinct (assigned_courses i) \<longrightarrow> distinct (assigned_courses (Instructor_assign_course i c)))
   \<and> (deref h x = Some (ObjStudent st) \<longrightarrow>
        fst (Course_add_student h k x) = Inr ()
        \<and> Course_add_student h (snd (Course_add_student h k x)) x = (Inr (), snd (Course_add_student h k x))
        \<and> x \<in> set (enrolled_students (snd (Course_add_student h k x)))
        \<and> (distinct (enrolled_students k) \<longrightarrow>
             distinct (enrolled_students (snd (Course_add_student h k x)))))"
  by (simp add: Student_register_course_def Instructor_assign_course_def Course_add_student_def isinstance_Student_def)

theorem idempotent_registration_witness:
  "registered_courses (Student_register_course ann math) = [''C1'']
   \<and> registered_courses (Student_register_course (Student_register_course ann math) math) = [''C1'']
   \<and> assigned_courses (Instructor_assign_course bob math) = [''C1'']
   \<and> assigned_courses (Instructor_assign_course (Instructor_assign_course bob math) math) = [''C1'']
   \<and> enrolled_students (snd (Course_add_student example_heap math 0)) = [0]
   \<and> Course_add_student example_heap (snd (Course_add_student example_heap math 0)) 0
       = (Inr (), snd (Course_add_student example_heap math 0))"
proof -
  have r: "registered_courses (Student_register_course ann math) = [''C1'']"
    by (simp add: Student_register_course_def ann_def math_def Course_init_def)
  have a: "assigned_courses (Instructor_assign_course bob math) = [''C1'']"
    by (simp add: Instructor_assign_course_def bob_def math_def Course_init_def)
  have e: "enrolled_students (snd (Course_add_student example_heap math 0)) = [0]"
    by (simp add: Course_add_student_def isinstance_Student_def deref_example_heap math_def
        Course_init_def)
  show ?thesis
    using idempotent_registration [of ann math bob example_heap 0 ann math] r a e
    by (simp add: deref_example_heap)
qed

section \<open>Properties of the relational store\<close>

text \<open>
  Claim C5. When the student's identifier is the primary key of a stored row, or the
  student's email is the email of a stored row, \<open>add_student\<close> raises the \<open>ValueError\<close>
  that wraps the integrity violation and the database is what it was before the call, so
  the \<open>students\<close> table has the same rows and the same number of rows.
\<close>

theorem add_student_duplicate_key:
  "student_id s \<in> set (map row_id (students db)) \<or> email s \<in> set (map row_email (students db))
   \<longrightarrow>
     DatabaseManager_add_student db s =
       (Inl (ValueError (''Student already exists or email is already in use: '' @
               (if email s \<in> set (map row_email (students db))
                then ''UNIQUE constraint failed: students.email''
                else ''UNIQUE constraint failed: students.student_id''))), db)
     \<and> length (students (snd (DatabaseManager_add_student db s))) = length (students db)"
  by (auto simp: DatabaseManager_add_student_def insert_student_def row_id_def row_email_def)

theorem add_student_duplicate_key_witness:
  "DatabaseManager_add_student example_db (ann\<lparr>email := ''new@x.com''\<rparr>) =
     (Inl (ValueError ''Student already exists or email is already in use: UNIQUE constraint failed: students.student_id''),
      example_db)
   \<and> DatabaseManager_add_student example_db (ann\<lparr>student_id := ''S9''\<rparr>) =
     (Inl (ValueError ''Student already exists or email is already in use: UNIQUE constraint failed: students.email''),
      example_db)"
  using add_student_duplicate_key [of "ann\<lparr>email := ''new@x.com''\<rparr>" example_db]
    add_student_duplicate_key [of "ann\<lparr>student_id := ''S9''\<rparr>" example_db]
  by (simp add: ann_def example_db_def row_id_def row_email_def)

text \<open>
  Claim C6. After \<open>delete_course\<close> no row of \<open>courses\<close>, \<open>student_courses\<close> or
  \<open>instructor_courses\<close> carries the course identifier, and after \<open>delete_student\<close> no row
  of \<open>students\<close> or \<open>student_courses\<close> carries the student identifier; these are all the
  tables that have such a column. The rows with other identifiers stay, and the other
  tables are not touched.
\<close>

theorem delete_cascades:
  "cid \<notin> set (map fst (courses (DatabaseManager_delete_course db cid)))
   \<and> cid \<notin> set (map snd (student_courses (DatabaseManager_delete_course db cid)))
   \<and> cid \<notin> set (map snd (instructor_courses (DatabaseManager_delete_course db cid)))
   \<and> set (courses (DatabaseManager_delete_course db cid)) = set (courses db) - {r. fst r = cid}
   \<and> set (student_courses (DatabaseManager_delete_course db cid))
       = set (student_courses db) - {r. snd r = cid}
   \<and> set (instructor_courses (DatabaseManager_delete_course db cid))
       = set (instructor_courses db) - {r. snd r = cid}
   \<and> students (DatabaseManager_delete_course db cid) = students db
   \<and> instructors (DatabaseManager_delete_course db cid) = instructors db
   \<and> sid \<notin> set (map row_id (students (DatabaseManager_delete_student db sid)))
   \<and> sid \<notin> set (map fst (student_courses (DatabaseManager_delete_student db sid)))
   \<and> set (students (DatabaseManager_delete_student db sid))
       = set (students db) - {r. row_id r = sid}
   \<and> set (student_courses (DatabaseManager_delete_student db sid))
       = set (student_courses db) - {r. fst r = sid}
   \<and> courses (DatabaseManager_delete_student db sid) = courses db
   \<and> instructors (DatabaseManager_delete_student db sid) = instructors db
   \<and> instructor_courses (DatabaseManager_delete_student db sid) = instructor_courses db"
  by (auto simp: DatabaseManager_delete_course_def DatabaseManager_delete_student_def)

theorem delete_cascades_witness:
  "''C1'' \<notin> set (map fst (courses (DatabaseManager_delete_course example_db ''C1'')))
   \<and> ''C1'' \<notin> set (map snd (student_courses (DatabaseManager_delete_course example_db ''C1'')))
   \<and> ''C1'' \<notin> set (map snd (instructor_courses (DatabaseManager_delete_course example_db ''C1'')))
   \<and> ''S1'' \<notin> set (map row_id (students (DatabaseManager_delete_student example_db ''S1'')))
   \<and> ''S1'' \<notin> set (map fst (student_courses (DatabaseManager_delete_student example_db ''S1'')))"
  using delete_cascades [of "''C1''" example_db "''S1''"]
  by blast

section \<open>Properties of the JSON store\<close>

subsection \<open>Association lists\<close>

lemma alist_eqI:
  "map fst xs = map fst ys \<Longrightarrow> distinct (map fst xs) \<Longrightarrow> map_of xs = map_of ys \<Longrightarrow> xs = ys"
proof (induction xs arbitrary: ys)
  case Nil
  then show ?case by simp
next
  case (Cons x xs)
  from Cons.prems(1) obtain y ys' where ys: "ys = y # ys'" by (cases ys) simp_all
  from Cons.prems(1) ys have k: "fst x = fst y" and ks: "map fst xs = map fst ys'" by simp_all
  from Cons.prems(2) have d: "fst x \<notin> set (map fst xs)" "distinct (map fst xs)" by simp_all
  from Cons.prems(3) have eq: "map_of (x # xs) a = map_of (y # ys') a" for a
    unfolding ys by (rule fun_cong)
  from eq [of "fst x"] have v: "snd x = snd y" using k by simp
  have "map_of xs = map_of ys'"
  proof
    fix a
    show "map_of xs a = map_of ys' a"
    proof (cases "a = fst x")
      case True
      have "map_of xs a = None" using True d(1) by (simp add: map_of_eq_None_iff)
      moreover have "map_of ys' a = None" using True d(1) ks by (simp add: map_of_eq_None_iff)
      ultimately show ?thesis by simp
    next
      case False
      from eq [of a] show ?thesis using False k by simp
    qed
  qed
  then have "xs = ys'" using Cons.IH ks d(2) by blast
  then show ?case using ys k v by (simp add: prod_eq_iff)
qed

lemma update_keys_set: "fst ` set (AList.update k v x) = insert k (fst ` set x)"
  by (simp add: AList.dom_update)

lemma dict_merge_Cons: "dict_merge x (kv # d) = dict_merge (AList.update (fst kv) (snd kv) x) d"
  by (simp add: dict_merge_def)

lemma dict_merge_Nil: "dict_merge x [] = x"
  by (simp add: dict_merge_def)

lemma dict_merge_keys_set: "fst ` set (dict_merge x d) = fst ` set x \<union> fst ` set d"
proof (induction d arbitrary: x)
  case Nil
  show ?case by (simp add: dict_merge_Nil)
next
  case (Cons kv d)
  show ?case
    unfolding dict_merge_Cons Cons.IH update_keys_set by auto
qed

lemma dict_merge_keys_present:
  "set (map fst d) \<subseteq> set (map fst x) \<Longrightarrow> map fst (dict_merge x d) = map fst x"
proof (induction d arbitrary: x)
  case Nil
  show ?case by (simp add: dict_merge_Nil)
next
  case (Cons kv d)
  from Cons.prems have in_x: "fst kv \<in> set (map fst x)" by simp
  then have same: "map fst (AList.update (fst kv) (snd kv) x) = map fst x"
    by (simp add: AList.update_keys)
  have "set (map fst d) \<subseteq> set (map fst (AList.update (fst kv) (snd kv) x))"
    using Cons.prems unfolding same by simp
  from Cons.IH [OF this] same show ?case
    by (simp add: dict_merge_Cons)
qed

lemma dict_merge_map_of: "map_of (dict_merge x d) = map_of x ++ map_of (rev d)"
proof (induction d arbitrary: x)
  case Nil
  show ?case by (simp add: dict_merge_Nil)
next
  case (Cons kv d)
  show ?case
    unfolding dict_merge_Cons Cons.IH
    by (rule ext) (simp add: AList.update_conv' map_add_def split: option.splits)
qed

lemma dict_merge_distinct: "distinct (map fst x) \<Longrightarrow> distinct (map fst (dict_merge x d))"
proof (induction d arbitrary: x)
  case Nil
  then show ?case by (simp add: dict_merge_Nil)
next
  case (Cons kv d)
  then show ?case
    by (simp add: dict_merge_Cons AList.distinct_update)
qed

lemma dict_merge_absorb:
  assumes "distinct (map fst x)"
  shows "dict_merge (dict_merge x d) d = dict_merge x d"
proof (rule alist_eqI)
  show "map fst (dict_merge (dict_merge x d) d) = map fst (dict_merge x d)"
    by (rule dict_merge_keys_present) (simp add: dict_merge_keys_set)
  show "distinct (map fst (dict_merge (dict_merge x d) d))"
    by (intro dict_merge_distinct assms)
  show "map_of (dict_merge (dict_merge x d) d) = map_of (dict_merge x d)"
    by (rule ext) (simp add: dict_merge_map_of map_add_def split: option.splits)
qed


lemma map_of_rev_distinct: "distinct (map fst d) \<Longrightarrow> map_of (rev d) = map_of d"
proof (induction d)
  case Nil
  show ?case by simp
next
  case (Cons kv d)
  then have notin: "fst kv \<notin> fst ` set d" and IH: "map_of (rev d) = map_of d" by simp_all
  from notin have none: "map_of d (fst kv) = None" by (simp add: map_of_eq_None_iff)
  show ?case
  proof
    fix a
    show "map_of (rev (kv # d)) a = map_of (kv # d) a"
    proof (cases "a = fst kv")
      case True
      with none show ?thesis by (simp add: IH map_add_def del: map_of_eq_None_iff)
    next
      case False
      then show ?thesis
        by (cases "map_of d a") (simp_all add: IH map_add_def del: map_of_eq_None_iff)
    qed
  qed
qed

lemma dict_merge_append: "dict_merge x (d @ e) = dict_merge (dict_merge x d) e"
  by (simp add: dict_merge_def)

lemma fold_dict_merge_concat:
  "fold (\<lambda>d x. dict_merge x d) ds x = dict_merge x (concat ds)"
  by (induction ds arbitrary: x) (simp_all add: dict_merge_Nil dict_merge_append)

lemma fold_dict_merge_absorb:
  "distinct (map fst x) \<Longrightarrow>
   fold (\<lambda>d x. dict_merge x d) ds (fold (\<lambda>d x. dict_merge x d) ds x)
     = fold (\<lambda>d x. dict_merge x d) ds x"
  by (simp add: fold_dict_merge_concat dict_merge_absorb)

lemma dict_get_merge:
  assumes "distinct (map fst d)" and "dict_has d k"
  shows "dict_get (dict_merge x d) k = dict_get d k" and "dict_has (dict_merge x d) k"
proof -
  from assms(2) have "map_of d k \<noteq> None"
    by (simp add: dict_has_def map_of_eq_None_iff)
  then obtain v where v: "map_of d k = Some v" by blast
  then show "dict_get (dict_merge x d) k = dict_get d k"
    by (simp add: dict_get_def dict_merge_map_of map_of_rev_distinct [OF assms(1)] map_add_def)
  from assms(2) show "dict_has (dict_merge x d) k"
    by (simp add: dict_has_def dict_merge_keys_set)
qed

lemma set_update_cases:
  "p \<in> set (AList.update k v al) \<Longrightarrow> p = (k, v) \<or> p \<in> set al"
  by (induction al) (auto split: if_splits)

lemma update_fresh: "k \<notin> fst ` set al \<Longrightarrow> AList.update k v al = al @ [(k, v)]"
  by (induction al) auto


subsection \<open>The index by key\<close>

lemma keyed_index_update:
  assumes "keyed_index kf S" "dict_has r kf" "py_str (dict_get r kf) = k" "distinct (map fst r)"
  shows "keyed_index kf (AList.update k r S)"
  using assms
  by (auto simp: keyed_index_def list_all_iff AList.distinct_update dest!: set_update_cases)

lemma keyed_index_index_record:
  "keyed_index kf S \<Longrightarrow> unique_keys v \<Longrightarrow> keyed_index kf (index_record kf v S)"
  by (cases v) (simp_all add: index_record_def unique_keys_def keyed_index_update)

lemma keyed_index_fold_index:
  "keyed_index kf S \<Longrightarrow> list_all unique_keys vs \<Longrightarrow> keyed_index kf (fold (index_record kf) vs S)"
  by (induction vs arbitrary: S) (simp_all add: keyed_index_index_record)

lemma keyed_index_index_by_key:
  "list_all unique_keys vs \<Longrightarrow> keyed_index kf (index_by_key kf vs)"
  unfolding index_by_key_def
  by (rule keyed_index_fold_index) (simp_all add: keyed_index_def)

lemma keyed_index_lookup:
  assumes "keyed_index kf S" "map_of S k = Some r"
  shows "distinct (map fst r)" "dict_has r kf" "py_str (dict_get r kf) = k"
proof -
  from assms(2) have "(k, r) \<in> set S" by (rule map_of_SomeD)
  with assms(1) show "distinct (map fst r)" "dict_has r kf" "py_str (dict_get r kf) = k"
    by (auto simp: keyed_index_def list_all_iff)
qed

lemma keyed_index_upsert:
  assumes "keyed_index kf S" "keyed_object kf obj"
  shows "keyed_index kf (upsert kf obj S)"
proof (cases obj)
  case None
  with assms show ?thesis by (simp add: upsert_def)
next
  case (Some d)
  with assms(2) have d: "distinct (map fst d)" "dict_has d kf" by (simp_all add: keyed_object_def)
  define old where "old = (case map_of S (py_str (dict_get d kf)) of None \<Rightarrow> [] | Some x \<Rightarrow> x)"
  have "distinct (map fst old)"
    using keyed_index_lookup(1) [OF assms(1)] by (auto simp: old_def split: option.splits)
  then have m: "distinct (map fst (dict_merge old d))" by (rule dict_merge_distinct)
  have "keyed_index kf (AList.update (py_str (dict_get d kf)) (dict_merge old d) S)"
    by (rule keyed_index_update [OF assms(1)]) (simp_all add: dict_get_merge [OF d] m)
  then show ?thesis using Some by (simp add: upsert_def Let_def old_def assms(1))
qed

lemma keyed_index_fold_upsert:
  "keyed_index kf S \<Longrightarrow> list_all (keyed_object kf) ds \<Longrightarrow> keyed_index kf (fold (upsert kf) ds S)"
  by (induction ds arbitrary: S) (simp_all add: keyed_index_upsert)

lemma reindex_append:
  "keyed_index kf S \<Longrightarrow> fst ` set acc \<inter> fst ` set S = {} \<Longrightarrow>
   fold (index_record kf) (map (\<lambda>kr. JDict (snd kr)) S) acc = acc @ S"
proof (induction S arbitrary: acc)
  case Nil
  show ?case by simp
next
  case (Cons kr S)
  from Cons.prems(1) have kr: "dict_has (snd kr) kf" "py_str (dict_get (snd kr) kf) = fst kr"
    and rest: "keyed_index kf S" and fresh: "fst kr \<notin> fst ` set S"
    by (simp_all add: keyed_index_def)
  from Cons.prems(2) have notin: "fst kr \<notin> fst ` set acc" by auto
  have step: "index_record kf (JDict (snd kr)) acc = acc @ [kr]"
    using kr notin by (simp add: index_record_def update_fresh)
  have "fst ` set (acc @ [kr]) \<inter> fst ` set S = {}"
    using Cons.prems(2) fresh by auto
  from Cons.IH [OF rest this] step show ?case by simp
qed

lemma reindex:
  "keyed_index kf S \<Longrightarrow> index_by_key kf (map (\<lambda>kr. JDict (snd kr)) S) = S"
  using reindex_append [of kf S "[]"] by (simp add: index_by_key_def)


subsection \<open>The loop over the collection\<close>

lemma incoming_for_Cons:
  "incoming_for kf k (obj # ds) =
     (case obj of None \<Rightarrow> [] | Some d \<Rightarrow> if py_str (dict_get d kf) = k then [d] else [])
     @ incoming_for kf k ds"
  by (simp add: incoming_for_def)

lemma incoming_for_Nil: "incoming_for kf k [] = []"
  by (simp add: incoming_for_def)

lemma upsert_None: "upsert kf None S = S"
  by (simp add: upsert_def)

lemma map_of_upsert:
  "map_of (upsert kf obj S) k =
     (case obj of
        None \<Rightarrow> map_of S k
      | Some d \<Rightarrow>
          if py_str (dict_get d kf) = k \<and> k \<noteq> [] then Some (dict_merge (old_record S k) d)
          else map_of S k)"
  by (auto simp: upsert_def Let_def old_record_def AList.update_conv' split: option.splits)

lemma map_of_fold_upsert:
  "map_of (fold (upsert kf) ds S) k =
     (if k = [] \<or> incoming_for kf k ds = [] then map_of S k
      else Some (fold (\<lambda>d x. dict_merge x d) (incoming_for kf k ds) (old_record S k)))"
proof (induction ds arbitrary: S)
  case Nil
  show ?case by (simp add: incoming_for_Nil)
next
  case (Cons obj ds)
  show ?case
  proof (cases obj)
    case None
    then show ?thesis by (simp add: Cons.IH incoming_for_Cons upsert_None)
  next
    case (Some d)
    show ?thesis
    proof (cases "py_str (dict_get d kf) = k \<and> k \<noteq> []")
      case True
      then have "map_of (upsert kf obj S) k = Some (dict_merge (old_record S k) d)"
        using Some by (simp add: map_of_upsert)
      then have "old_record (upsert kf obj S) k = dict_merge (old_record S k) d"
        by (simp add: old_record_def)
      with True Some \<open>map_of (upsert kf obj S) k = Some (dict_merge (old_record S k) d)\<close>
      show ?thesis by (simp add: Cons.IH incoming_for_Cons)
    next
      case False
      then have same: "map_of (upsert kf obj S) k = map_of S k"
        using Some by (auto simp: map_of_upsert)
      then have "old_record (upsert kf obj S) k = old_record S k"
        by (simp add: old_record_def)
      with False Some same show ?thesis by (auto simp: Cons.IH incoming_for_Cons)
    qed
  qed
qed

lemma incoming_keys_Nil: "incoming_keys kf [] = {}"
  by (simp add: incoming_keys_def incoming_for_Nil)

lemma incoming_keys_Cons: "incoming_keys kf (obj # ds) = object_key kf obj \<union> incoming_keys kf ds"
proof (cases obj)
  case None
  then show ?thesis by (simp add: incoming_keys_def object_key_def incoming_for_Cons)
next
  case (Some d)
  show ?thesis
  proof (rule set_eqI)
    fix k
    show "k \<in> incoming_keys kf (obj # ds) \<longleftrightarrow> k \<in> object_key kf obj \<union> incoming_keys kf ds"
      unfolding incoming_keys_def object_key_def incoming_for_Cons Some
      by (cases "py_str (dict_get d kf) = k") auto
  qed
qed

lemma keys_upsert: "fst ` set (upsert kf obj S) = fst ` set S \<union> object_key kf obj"
proof (cases obj)
  case None
  then show ?thesis by (simp add: upsert_None object_key_def)
next
  case (Some d)
  then show ?thesis
    by (cases "py_str (dict_get d kf) = []")
       (simp_all add: upsert_def Let_def object_key_def AList.dom_update)
qed

lemma keys_upsert_present:
  assumes "object_key kf obj \<subseteq> fst ` set S"
  shows "map fst (upsert kf obj S) = map fst S"
proof (cases obj)
  case None
  then show ?thesis by (simp add: upsert_None)
next
  case (Some d)
  show ?thesis
  proof (cases "py_str (dict_get d kf) = []")
    case True
    with Some show ?thesis by (simp add: upsert_def)
  next
    case False
    with Some assms have "py_str (dict_get d kf) \<in> fst ` set S"
      by (simp add: object_key_def)
    with Some False show ?thesis
      by (simp add: upsert_def Let_def AList.update_keys)
  qed
qed

lemma keys_fold_upsert:
  "fst ` set (fold (upsert kf) ds S) = fst ` set S \<union> incoming_keys kf ds"
proof (induction ds arbitrary: S)
  case Nil
  show ?case by (simp add: incoming_keys_Nil)
next
  case (Cons obj ds)
  have "fst ` set (fold (upsert kf) (obj # ds) S)
      = (fst ` set S \<union> object_key kf obj) \<union> incoming_keys kf ds"
    by (simp only: fold_Cons o_apply Cons.IH keys_upsert)
  then show ?case by (simp only: incoming_keys_Cons Un_assoc)
qed

lemma keys_fold_upsert_present:
  "incoming_keys kf ds \<subseteq> fst ` set S \<Longrightarrow> map fst (fold (upsert kf) ds S) = map fst S"
proof (induction ds arbitrary: S)
  case Nil
  show ?case by simp
next
  case (Cons obj ds)
  from Cons.prems have sub: "object_key kf obj \<subseteq> fst ` set S" "incoming_keys kf ds \<subseteq> fst ` set S"
    by (simp_all add: incoming_keys_Cons)
  have one: "map fst (upsert kf obj S) = map fst S"
    by (rule keys_upsert_present [OF sub(1)])
  have "fst ` set (upsert kf obj S) = fst ` set S"
    using sub(1) by (simp only: keys_upsert) blast
  with sub(2) have "incoming_keys kf ds \<subseteq> fst ` set (upsert kf obj S)" by simp
  from Cons.IH [OF this] one show ?case by simp
qed

lemma fold_upsert_absorb:
  assumes S: "keyed_index kf S" and ds: "list_all (keyed_object kf) ds"
  shows "fold (upsert kf) ds (fold (upsert kf) ds S) = fold (upsert kf) ds S"
proof (rule alist_eqI)
  let ?S1 = "fold (upsert kf) ds S"
  have S1: "keyed_index kf ?S1" by (rule keyed_index_fold_upsert [OF S ds])
  show "map fst (fold (upsert kf) ds ?S1) = map fst ?S1"
    by (rule keys_fold_upsert_present) (simp only: keys_fold_upsert Un_upper2)
  show "distinct (map fst (fold (upsert kf) ds ?S1))"
    using keyed_index_fold_upsert [OF S1 ds] by (simp add: keyed_index_def)
  show "map_of (fold (upsert kf) ds ?S1) = map_of ?S1"
  proof
    fix k
    show "map_of (fold (upsert kf) ds ?S1) k = map_of ?S1 k"
    proof (cases "k = [] \<or> incoming_for kf k ds = []")
      case True
      then show ?thesis by (auto simp: map_of_fold_upsert)
    next
      case False
      have d: "distinct (map fst (old_record S k))"
        using keyed_index_lookup(1) [OF S] by (auto simp: old_record_def split: option.splits)
      have one: "map_of ?S1 k
          = Some (fold (\<lambda>d x. dict_merge x d) (incoming_for kf k ds) (old_record S k))"
        using False by (simp add: map_of_fold_upsert)
      then have "old_record ?S1 k
          = fold (\<lambda>d x. dict_merge x d) (incoming_for kf k ds) (old_record S k)"
        by (simp add: old_record_def)
      then have "map_of (fold (upsert kf) ds ?S1) k
          = Some (fold (\<lambda>d x. dict_merge x d) (incoming_for kf k ds) (old_record S k))"
        using False by (simp add: map_of_fold_upsert [of kf ds ?S1] fold_dict_merge_absorb [OF d])
      with one show ?thesis by simp
    qed
  qed
qed


lemma dict_merge_fresh:
  "distinct (map fst d) \<Longrightarrow> fst ` set acc \<inter> fst ` set d = {} \<Longrightarrow> dict_merge acc d = acc @ d"
proof (induction d arbitrary: acc)
  case Nil
  show ?case by (simp add: dict_merge_Nil)
next
  case (Cons kv d)
  from Cons.prems have notin: "fst kv \<notin> fst ` set acc" and d: "distinct (map fst d)"
    and fresh: "fst kv \<notin> fst ` set d" by auto
  have step: "AList.update (fst kv) (snd kv) acc = acc @ [kv]"
    using notin by (simp add: update_fresh)
  have "fst ` set (acc @ [kv]) \<inter> fst ` set d = {}"
    using Cons.prems(2) fresh by auto
  from Cons.IH [OF d this] step show ?case by (simp add: dict_merge_Cons)
qed

lemma dict_merge_empty: "distinct (map fst d) \<Longrightarrow> dict_merge [] d = d"
  using dict_merge_fresh [of d "[]"] by simp

lemma read_existing_save_data:
  "read_existing (save_data fs fn data kf) fn
     = map (\<lambda>kr. JDict (snd kr))
         (fold (upsert kf) (case data of None \<Rightarrow> [] | Some objs \<Rightarrow> objs)
            (index_by_key kf (read_existing fs fn)))"
  by (simp add: save_data_def read_existing_def Let_def)

lemma stored_save_data:
  assumes objs: "list_all (keyed_object kf) objs"
    and prior: "list_all unique_keys (read_existing fs fn)"
  shows "stored kf (save_data fs fn (Some objs) kf) fn k
     = map_of (fold (upsert kf) objs (index_by_key kf (read_existing fs fn))) k"
proof -
  have "keyed_index kf (fold (upsert kf) objs (index_by_key kf (read_existing fs fn)))"
    by (intro keyed_index_fold_upsert keyed_index_index_by_key objs prior)
  then show ?thesis
    by (simp add: stored_def read_existing_save_data reindex)
qed

subsection \<open>\<open>save_data\<close>\<close>

text \<open>
  Claim C4, for collections keyed by the key field and for non-empty keys. Let every
  object of the collection serialise to a dict that has the key field, and let the dicts
  involved have every field name once. Then saving the same collection a second time
  leaves the file system as the first save left it; the record the file holds for a key
  is unchanged when no object of the collection has that key, and also for the empty key,
  under which \<open>save_data\<close> files nothing; and for a non-empty key that exactly one object
  has, the file afterwards holds the old record merged with the object's serialisation,
  the object's fields winning, or the serialisation itself when the key is new.
\<close>

theorem save_data_upsert:
  assumes objs: "list_all (keyed_object kf) objs"
    and prior: "list_all unique_keys (read_existing fs fn)"
  shows "save_data (save_data fs fn (Some objs) kf) fn (Some objs) kf = save_data fs fn (Some objs) kf
    \<and> (k = [] \<or> incoming_for kf k objs = [] \<longrightarrow>
         stored kf (save_data fs fn (Some objs) kf) fn k = stored kf fs fn k)
    \<and> (k \<noteq> [] \<and> incoming_for kf k objs = [d] \<and> stored kf fs fn k = Some old \<longrightarrow>
         stored kf (save_data fs fn (Some objs) kf) fn k = Some (dict_merge old d))
    \<and> (k \<noteq> [] \<and> incoming_for kf k objs = [d] \<and> stored kf fs fn k = None \<longrightarrow>
         stored kf (save_data fs fn (Some objs) kf) fn k = Some d)"
proof (intro conjI impI)
  let ?S0 = "index_by_key kf (read_existing fs fn)"
  let ?S1 = "fold (upsert kf) objs ?S0"
  have S0: "keyed_index kf ?S0" by (rule keyed_index_index_by_key [OF prior])
  have S1: "keyed_index kf ?S1" by (rule keyed_index_fold_upsert [OF S0 objs])
  have "index_by_key kf (read_existing (save_data fs fn (Some objs) kf) fn) = ?S1"
    by (simp add: read_existing_save_data reindex [OF S1])
  then have "save_data (save_data fs fn (Some objs) kf) fn (Some objs) kf
      = (save_data fs fn (Some objs) kf)
          (fn \<mapsto> Json (JList (map (\<lambda>kr. JDict (snd kr)) (fold (upsert kf) objs ?S1))))"
    by (simp add: save_data_def [of "save_data fs fn (Some objs) kf"] Let_def)
  also have "\<dots> = save_data fs fn (Some objs) kf"
    by (simp add: fold_upsert_absorb [OF S0 objs] save_data_def [of fs] Let_def)
  finally show "save_data (save_data fs fn (Some objs) kf) fn (Some objs) kf
      = save_data fs fn (Some objs) kf" .
next
  assume "k = [] \<or> incoming_for kf k objs = []"
  then show "stored kf (save_data fs fn (Some objs) kf) fn k = stored kf fs fn k"
    unfolding stored_save_data [OF objs prior]
    by (auto simp: map_of_fold_upsert stored_def)
next
  assume a: "k \<noteq> [] \<and> incoming_for kf k objs = [d] \<and> stored kf fs fn k = Some old"
  then have "old_record (index_by_key kf (read_existing fs fn)) k = old"
    by (simp add: old_record_def stored_def)
  with a show "stored kf (save_data fs fn (Some objs) kf) fn k = Some (dict_merge old d)"
    by (simp add: stored_save_data [OF objs prior] map_of_fold_upsert)
next
  assume a: "k \<noteq> [] \<and> incoming_for kf k objs = [d] \<and> stored kf fs fn k = None"
  then have o: "old_record (index_by_key kf (read_existing fs fn)) k = []"
    by (simp add: old_record_def stored_def)
  from a have "d \<in> set (incoming_for kf k objs)" by simp
  then have "Some d \<in> set objs"
    by (auto simp: incoming_for_def split: option.splits if_splits)
  with objs have "distinct (map fst d)"
    by (auto simp: list_all_iff keyed_object_def)
  with a o show "stored kf (save_data fs fn (Some objs) kf) fn k = Some d"
    by (simp add: stored_save_data [OF objs prior] map_of_fold_upsert dict_merge_empty)
qed

theorem save_data_upsert_witness:
  "list_all (keyed_object ''student_id'') [Some (Student_to_dict ann), None]
   \<and> list_all unique_keys (read_existing example_fs ''students.json'')
   \<and> incoming_for ''student_id'' ''S0'' [Some (Student_to_dict ann), None] = []
   \<and> incoming_for ''student_id'' ''S1'' [Some (Student_to_dict ann), None] = [Student_to_dict ann]
   \<and> stored ''student_id'' example_fs ''students.json'' ''S1''
       = Some [(''student_id'', JStr ''S1''), (''name'', JStr ''Anna''), (''note'', JStr ''kept'')]
   \<and> save_data (save_data example_fs ''students.json'' (Some [Some (Student_to_dict ann), None]) ''student_id'')
         ''students.json'' (Some [Some (Student_to_dict ann), None]) ''student_id''
       = save_data example_fs ''students.json'' (Some [Some (Student_to_dict ann), None]) ''student_id''
   \<and> stored ''student_id''
         (save_data example_fs ''students.json'' (Some [Some (Student_to_dict ann), None]) ''student_id'')
         ''students.json'' ''S0''
       = stored ''student_id'' example_fs ''students.json'' ''S0''
   \<and> stored ''student_id''
         (save_data example_fs ''students.json'' (Some [Some (Student_to_dict ann), None]) ''student_id'')
         ''students.json'' ''S1''
       = Some (dict_merge [(''student_id'', JStr ''S1''), (''name'', JStr ''Anna''), (''note'', JStr ''kept'')]
                 (Student_to_dict ann))"
proof -
  have objs: "list_all (keyed_object ''student_id'') [Some (Student_to_dict ann), None]"
    by (simp add: keyed_object_def Student_to_dict_def Person_to_dict_def dict_merge_def dict_has_def)
  have prior: "list_all unique_keys (read_existing example_fs ''students.json'')"
    by (simp add: unique_keys_def read_existing_def example_fs_def)
  have i0: "incoming_for ''student_id'' ''S0'' [Some (Student_to_dict ann), None] = []"
    by (simp add: incoming_for_def Student_to_dict_def Person_to_dict_def dict_merge_def
        dict_get_def py_str_def ann_def)
  have i1: "incoming_for ''student_id'' ''S1'' [Some (Student_to_dict ann), None] = [Student_to_dict ann]"
    by (simp add: incoming_for_def Student_to_dict_def Person_to_dict_def dict_merge_def
        dict_get_def py_str_def ann_def)
  have s1: "stored ''student_id'' example_fs ''students.json'' ''S1''
       = Some [(''student_id'', JStr ''S1''), (''name'', JStr ''Anna''), (''note'', JStr ''kept'')]"
    by (simp add: stored_def read_existing_def index_by_key_def index_record_def dict_has_def
        dict_get_def py_str_def example_fs_def)
  show ?thesis
    using save_data_upsert [OF objs prior, of "''S0''" "Student_to_dict ann" "[]"]
      save_data_upsert [OF objs prior, of "''S1''" "Student_to_dict ann"
        "[(''student_id'', JStr ''S1''), (''name'', JStr ''Anna''), (''note'', JStr ''kept'')]"]
      objs prior i0 i1 s1
    by simp
qed

lemmas eval_defs = save_data_def read_existing_def index_by_key_def index_record_def upsert_def
  stored_def incoming_for_def dict_merge_def dict_get_def dict_has_def py_str_def
  Student_to_dict_def Person_to_dict_def Let_def

text \<open>
  Claim C4 as stated does not hold for the empty key: \<open>save_data\<close> skips an object whose
  key is the empty string. Here the file holds a record under the key \<open>''\<close>, the student
  saved has \<open>student_id = ''\<close>, and the file keeps the old record, which is not the merge.
\<close>

theorem save_data_empty_key_counterexample:
  "stored ''student_id'' blank_fs ''students.json'' []
     = Some [(''student_id'', JStr []), (''name'', JStr ''Old'')]
   \<and> incoming_for ''student_id'' [] [Some (Student_to_dict blank_ann)] = [Student_to_dict blank_ann]
   \<and> stored ''student_id''
         (save_data blank_fs ''students.json'' (Some [Some (Student_to_dict blank_ann)]) ''student_id'')
         ''students.json'' []
       = Some [(''student_id'', JStr []), (''name'', JStr ''Old'')]
   \<and> stored ''student_id''
         (save_data blank_fs ''students.json'' (Some [Some (Student_to_dict blank_ann)]) ''student_id'')
         ''students.json'' []
       \<noteq> Some (dict_merge [(''student_id'', JStr []), (''name'', JStr ''Old'')]
                  (Student_to_dict blank_ann))"
  by (simp add: eval_defs blank_fs_def blank_ann_def ann_def)

text \<open>
  Claim C9. \<open>load_json\<close> raises \<open>FileNotFoundError\<close> exactly when the file does not exist,
  raises \<open>json.JSONDecodeError\<close> exactly when the file holds text that is not JSON, and
  returns a value exactly when the file holds the JSON text of that value; nothing is
  checked or changed in between.
\<close>

theorem load_json_outcomes:
  "(load_json fs filename = Inl (FileNotFoundError filename) \<longleftrightarrow> fs filename = None)
   \<and> (load_json fs filename = Inl JSONDecodeError \<longleftrightarrow> fs filename = Some NotJson)
   \<and> (load_json fs filename = Inr v \<longleftrightarrow> fs filename = Some (Json v))"
  by (auto simp: load_json_def split: option.splits file_content.splits)

theorem load_json_outcomes_witness:
  "load_json example_fs ''missing.json'' = Inl (FileNotFoundError ''missing.json'')
   \<and> load_json example_fs ''broken.json'' = Inl JSONDecodeError
   \<and> load_json blank_fs ''students.json''
       = Inr (JList [JDict [(''student_id'', JStr []), (''name'', JStr ''Old'')]])"
  using load_json_outcomes [of example_fs "''missing.json''" JNull]
    load_json_outcomes [of example_fs "''broken.json''" JNull]
    load_json_outcomes [of blank_fs "''students.json''"
       "JList [JDict [(''student_id'', JStr []), (''name'', JStr ''Old'')]]"]
  by (simp add: example_fs_def blank_fs_def)

section \<open>Serialisation and construction of the entities\<close>

lemma is_alpha_not_space: "is_alpha c \<Longrightarrow> \<not> is_space c"
  by (auto simp: is_alpha_def is_space_def Let_def)

lemma str_strip_alpha: "str_isalpha s \<Longrightarrow> str_strip s = s"
proof -
  assume a: "str_isalpha s"
  then have ne: "s \<noteq> []" and all: "list_all is_alpha s" by (simp_all add: str_isalpha_def)
  from ne all have "is_alpha (hd s)" "is_alpha (last s)"
    by (simp_all add: list_all_iff)
  then have h: "\<not> is_space (hd s)" and l: "\<not> is_space (last s)"
    by (simp_all add: is_alpha_not_space)
  from h have 1: "dropWhile is_space s = s" by (simp add: dropWhile_eq_self_iff)
  from l ne have 2: "dropWhile is_space (rev s) = rev s"
    by (simp add: dropWhile_eq_self_iff hd_rev)
  show ?thesis by (simp add: str_strip_def 1 2)
qed

lemma validate_name_alpha: "str_isalpha s \<Longrightarrow> validate_name (JStr s) = Inr s"
  by (simp add: validate_name_def str_strip_alpha) (simp add: str_isalpha_def)

lemma validate_age_in_range: "1 \<le> a \<Longrightarrow> a \<le> 120 \<Longrightarrow> validate_age (JInt a) = Inr a"
  by (simp add: validate_age_def)

lemma as_string_list_map: "as_string_list (map JStr cs) = Some cs"
  by (induction cs) simp_all

lemma Student_to_dict_eq:
  "Student_to_dict s =
     [(''name'', JStr (name s)), (''age'', JInt (age s)), (''email'', JStr (email s)),
      (''student_id'', JStr (student_id s)),
      (''registered_courses'', JList (map JStr (registered_courses s)))]"
  by (simp add: Student_to_dict_def Person_to_dict_def dict_merge_def)

lemma Instructor_to_dict_eq:
  "Instructor_to_dict i =
     [(''name'', JStr (name i)), (''age'', JInt (age i)), (''email'', JStr (email i)),
      (''instructor_id'', JStr (instructor_id i)),
      (''assigned_courses'', JList (map JStr (assigned_courses i)))]"
  by (simp add: Instructor_to_dict_def Person_to_dict_def dict_merge_def)

text \<open>
  The serialisation of an entity is a dict with every field name once that has the
  entity's identifier field, as the idempotence of \<open>save_data\<close> asks of a collection.
\<close>

lemma entity_dicts_keyed:
  "keyed_object ''student_id'' (Some (Student_to_dict s))"
  "keyed_object ''instructor_id'' (Some (Instructor_to_dict i))"
  "Course_to_dict h c = Inr d \<Longrightarrow> keyed_object ''course_id'' (Some d)"
  by (auto simp: keyed_object_def dict_has_def Student_to_dict_eq Instructor_to_dict_eq
      Course_to_dict_def split: sum.splits)

lemma valid_person_name: "valid_person p \<Longrightarrow> str_strip (name p) = name p"
  by (auto simp: valid_person_def validate_name_def str_strip_alpha split: if_splits)

lemma Student_roundtrip:
  assumes "valid_person s"
  shows "Student_from_dict (JDict (Student_to_dict s)) = Inr s"
proof -
  from assms have n: "validate_name (JStr (name s)) = Inr (name s)"
    and a: "validate_age (JInt (age s)) = Inr (age s)"
    and e: "validate_email (JStr (email s)) = Inr (email s)"
    by (simp_all add: valid_person_def)
  have L: "Student_from_dict_try (JDict (Student_to_dict s))
      = \<lparr>l_name = Some (JStr (name s)), l_age = Some (JInt (age s)),
         l_email = Some (JStr (email s)), l_id = Some (JStr (student_id s)),
         l_courses = Some (JList (map JStr (registered_courses s)))\<rparr>"
    by (simp add: Student_from_dict_try_def Student_to_dict_eq dict_get_def dict_get_default_def
        dict_index_def no_locals_def n a e)
  have I: "Student_init (JStr (name s)) (JInt (age s)) (JStr (email s)) (student_id s)
        (Some (registered_courses s)) = Inr s"
    by (simp add: Student_init_def Person_init_def a e valid_person_name [OF assms])
  show ?thesis
    by (simp add: Student_from_dict_def L read_locals_def as_string_list_map I)
qed

lemma Instructor_roundtrip:
  assumes "valid_person i"
  shows "Instructor_from_dict (JDict (Instructor_to_dict i)) = Inr i"
proof -
  from assms have n: "validate_name (JStr (name i)) = Inr (name i)"
    and a: "validate_age (JInt (age i)) = Inr (age i)"
    and e: "validate_email (JStr (email i)) = Inr (email i)"
    by (simp_all add: valid_person_def)
  have L: "Instructor_from_dict_try (JDict (Instructor_to_dict i))
      = \<lparr>l_name = Some (JStr (name i)), l_age = Some (JInt (age i)),
         l_email = Some (JStr (email i)), l_id = Some (JStr (instructor_id i)),
         l_courses = Some (JList (map JStr (assigned_courses i)))\<rparr>"
    by (simp add: Instructor_from_dict_try_def Instructor_to_dict_eq dict_get_def
        dict_get_default_def dict_index_def no_locals_def n a e)
  have I: "Instructor_init (JStr (name i)) (JInt (age i)) (JStr (email i)) (instructor_id i)
        (Some (assigned_courses i)) = Inr i"
    by (simp add: Instructor_init_def Person_init_def a e valid_person_name [OF assms])
  show ?thesis
    by (simp add: Instructor_from_dict_def L read_locals_def as_string_list_map I)
qed

text \<open>
  What the two creation paths do with a field that fails its validator: the constructor
  passes the error of the age and of the email on, and \<open>from_dict\<close> never returns an
  entity, because the swallowed exception leaves \<open>registered_courses\<close> unbound.
\<close>

lemma constructor_checks_age_and_email:
  "validate_age ag = Inl e \<Longrightarrow> Student_init (JStr s) ag em sid cs = Inl e"
  "validate_age ag = Inr a \<Longrightarrow> validate_email em = Inl e \<Longrightarrow>
     Student_init (JStr s) ag em sid cs = Inl e"
  "validate_age ag = Inl e \<Longrightarrow> Instructor_init (JStr s) ag em iid cs = Inl e"
  "validate_age ag = Inr a \<Longrightarrow> validate_email em = Inl e \<Longrightarrow>
     Instructor_init (JStr s) ag em iid cs = Inl e"
  by (simp_all add: Student_init_def Instructor_init_def Person_init_def)

lemma read_locals_no_courses:
  "l_courses L = None \<Longrightarrow> \<exists>v. read_locals iv cv L = Inl (UnboundLocalError v)"
  by (simp add: read_locals_def split: option.splits)

lemma Student_from_dict_try_invalid:
  assumes "validate_name (dict_get d ''name'') = Inl e1
           \<or> validate_age (dict_get d ''age'') = Inl e2
           \<or> validate_email (dict_get d ''email'') = Inl e3"
  shows "l_courses (Student_from_dict_try (JDict d)) = None"
proof -
  have age: "dict_get d ''age'' \<noteq> JNull \<Longrightarrow>
      dict_get_default d ''age'' (JInt 1) = dict_get d ''age''"
    by (simp add: dict_get_def dict_get_default_def split: option.splits)
  have em: "dict_get d ''email'' \<noteq> JNull \<Longrightarrow>
      dict_get_default d ''email'' (JStr []) = dict_get d ''email''"
    by (simp add: dict_get_def dict_get_default_def split: option.splits)
  show ?thesis
    using assms age em
    by (auto simp: Student_from_dict_try_def no_locals_def Let_def split: sum.splits)
qed

lemma Student_from_dict_invalid:
  assumes "validate_name (dict_get d ''name'') = Inl e1
           \<or> validate_age (dict_get d ''age'') = Inl e2
           \<or> validate_email (dict_get d ''email'') = Inl e3"
  shows "\<exists>v. Student_from_dict (JDict d) = Inl (UnboundLocalError v)"
proof -
  from read_locals_no_courses [OF Student_from_dict_try_invalid [OF assms]]
  obtain v where "read_locals ''student_id'' ''registered_courses''
      (Student_from_dict_try (JDict d)) = Inl (UnboundLocalError v)" by blast
  then show ?thesis by (simp add: Student_from_dict_def)
qed

lemmas validator_defs = validate_name_def validate_age_def validate_email_def
  str_isalpha_def is_alpha_def str_strip_def is_space_def code_point_def
  re_match_anchored_def matches_def email_pattern_def Plus_def AtLeast2_def in_class_def

lemmas from_dict_defs = Student_from_dict_def Student_from_dict_try_def
  Instructor_from_dict_def Instructor_from_dict_try_def read_locals_def no_locals_def
  dict_get_def dict_get_default_def dict_index_def Let_def

text \<open>
  Claim C3 at inputs where the code does not do what it says. The name \<open>R2D2\<close> fails
  \<open>validate_name\<close>, but the constructor does not call \<open>validate_name\<close> and returns a
  student with that name; the empty name is accepted in the same way. \<open>from_dict\<close> does
  call the validators, swallows their exception and then fails with \<open>UnboundLocalError\<close>,
  not with the validation error of the violated rule.
\<close>

theorem invalid_name_accepted:
  "validate_name (JStr ''R2D2'') = Inl (ValueError ''Name must be alphabetic.'')
   \<and> Student_init (JStr ''R2D2'') (JInt 20) (JStr ''ann@x.com'') ''S1'' None
       = Inr \<lparr>name = ''R2D2'', age = 20, email = ''ann@x.com'', student_id = ''S1'',
              registered_courses = []\<rparr>
   \<and> Instructor_init (JStr []) (JInt 40) (JStr ''bob@x.com'') ''I1'' None
       = Inr \<lparr>name = [], age = 40, email = ''bob@x.com'', instructor_id = ''I1'',
              assigned_courses = []\<rparr>
   \<and> Student_from_dict
         (JDict [(''name'', JStr ''R2D2''), (''age'', JInt 20), (''email'', JStr ''ann@x.com''),
                 (''student_id'', JStr ''S1''), (''registered_courses'', JList [])])
       = Inl (UnboundLocalError ''registered_courses'')
   \<and> Instructor_from_dict
         (JDict [(''name'', JStr ''Bob''), (''age'', JInt 0), (''email'', JStr ''bob@x.com''),
                 (''instructor_id'', JStr ''I1''), (''assigned_courses'', JList [])])
       = Inl (UnboundLocalError ''age'')"
  by (simp add: validator_defs from_dict_defs Student_init_def Instructor_init_def Person_init_def)

text \<open>
  Claim C1 at an input where the code does not do what it says. The course has the
  instructor Bob and the student Ann; its dict nests both; \<open>from_dict\<close> rebuilds the
  instructor and passes it to the constructor, which drops it, so the course that comes
  back has no instructor. The student comes back as a new object with Ann's field values.
\<close>

theorem course_roundtrip_loses_instructor:
  "Course_add_instructor example_heap math 1 = (Inr (), math\<lparr>instructor := Some 1\<rparr>)
   \<and> Course_to_dict example_heap (math\<lparr>instructor := Some 1, enrolled_students := [0]\<rparr>)
       = Inr [(''course_id'', JStr ''C1''), (''course_name'', JStr ''Math''),
              (''instructor'', JDict (Instructor_to_dict bob)),
              (''enrolled_students'', JList [JDict (Student_to_dict ann)])]
   \<and> fst (Course_from_dict example_heap
         (JDict [(''course_id'', JStr ''C1''), (''course_name'', JStr ''Math''),
                 (''instructor'', JDict (Instructor_to_dict bob)),
                 (''enrolled_students'', JList [JDict (Student_to_dict ann)])]))
       = Inr \<lparr>course_id = ''C1'', course_name = ''Math'', instructor = None,
              enrolled_students = [5]\<rparr>
   \<and> deref (snd (Course_from_dict example_heap
         (JDict [(''course_id'', JStr ''C1''), (''course_name'', JStr ''Math''),
                 (''instructor'', JDict (Instructor_to_dict bob)),
                 (''enrolled_students'', JList [JDict (Student_to_dict ann)])]))) 5
       = Some (ObjStudent ann)"
  by (simp add: validator_defs from_dict_defs Student_init_def Instructor_init_def Person_init_def
      Course_add_instructor_def isinstance_Instructor_def deref_def
      Course_to_dict_def obj_to_dict_def Course_from_dict_def Course_init_def math_def
      Instructor_to_dict_def Student_to_dict_def Person_to_dict_def dict_merge_def alloc_def
      example_heap_def ann_def bob_def)

end
